theory Spec2Isabelle
  imports Main "HOL-Library.Word" "HOL-Library.Log_Nat"
begin

unbundle bit_operations_syntax

section \<open>The pixel formats of pxfmt.cpp\<close>

text \<open>
  The file under verification is \<^verbatim>\<open>src/extlib/pxfmt/pxfmt.cpp\<close>. It holds a table of
  per-format facts (one \<^verbatim>\<open>FMT_INFO\<close> line per format), a decoder from a pixel to four
  intermediate values, an encoder back, the function that maps an OpenGL format/type
  pair to a format, and the function that converts a rectangle of pixels.
\<close>

subsection \<open>C scalar types\<close>

text \<open>
  The typedefs at the top of the file, plus \<^verbatim>\<open>float\<close> and \<^verbatim>\<open>double\<close>. A value of any of
  these types is carried as its bit pattern, zero-extended to 64 bits.
\<close>

datatype ctype = Uint8 | Int8 | Uint16 | Int16 | Uint32 | Int32 | Float | Double

fun sizeof :: "ctype \<Rightarrow> nat" where
  "sizeof Uint8 = 1"
| "sizeof Int8 = 1"
| "sizeof Uint16 = 2"
| "sizeof Int16 = 2"
| "sizeof Uint32 = 4"
| "sizeof Int32 = 4"
| "sizeof Float = 4"
| "sizeof Double = 8"

type_synonym uint32 = "32 word"

subsection \<open>The enumeration \<^verbatim>\<open>pxfmt_sized_format\<close>\<close>

text \<open>
  Modelled from the spec: the header \<^verbatim>\<open>pxfmt.h\<close> that declares the enumeration is not
  part of the sources. The enumerators are the names that \<^verbatim>\<open>pxfmt.cpp\<close> uses: one per
  \<^verbatim>\<open>FMT_INFO\<close> line and \<^verbatim>\<open>PXFMT_INVALID\<close>. An enumeration of C++ is an integer type, so
  a format is a natural number here; the enumerators are numbered in the order of the
  table, after \<^verbatim>\<open>PXFMT_INVALID = 0\<close>. Only their being distinct matters below.
\<close>

type_synonym pxfmt_sized_format = nat

named_theorems pxfmt_enum

definition PXFMT_INVALID :: pxfmt_sized_format where [pxfmt_enum]: "PXFMT_INVALID = 0"
definition PXFMT_R8_UNORM :: pxfmt_sized_format where [pxfmt_enum]: "PXFMT_R8_UNORM = 1"
definition PXFMT_R8_SNORM :: pxfmt_sized_format where [pxfmt_enum]: "PXFMT_R8_SNORM = 2"
definition PXFMT_R16_UNORM :: pxfmt_sized_format where [pxfmt_enum]: "PXFMT_R16_UNORM = 3"
definition PXFMT_R16_SNORM :: pxfmt_sized_format where [pxfmt_enum]: "PXFMT_R16_SNORM = 4"
definition PXFMT_R32_UNORM :: pxfmt_sized_format where [pxfmt_enum]: "PXFMT_R32_UNORM = 5"
definition PXFMT_R32_SNORM :: pxfmt_sized_format where [pxfmt_enum]: "PXFMT_R32_SNORM = 6"
definition PXFMT_R32_FLOAT :: pxfmt_sized_format where [pxfmt_enum]: "PXFMT_R32_FLOAT = 7"
definition PXFMT_G8_UNORM :: pxfmt_sized_format where [pxfmt_enum]: "PXFMT_G8_UNORM = 8"
definition PXFMT_G8_SNORM :: pxfmt_sized_format where [pxfmt_enum]: "PXFMT_G8_SNORM = 9"
definition PXFMT_G16_UNORM :: pxfmt_sized_format where [pxfmt_enum]: "PXFMT_G16_UNORM = 10"
definition PXFMT_G16_SNORM :: pxfmt_sized_format where [pxfmt_enum]: "PXFMT_G16_SNORM = 11"
definition PXFMT_G32_UNORM :: pxfmt_sized_format where [pxfmt_enum]: "PXFMT_G32_UNORM = 12"
definition PXFMT_G32_SNORM :: pxfmt_sized_format where [pxfmt_enum]: "PXFMT_G32_SNORM = 13"
definition PXFMT_G32_FLOAT :: pxfmt_sized_format where [pxfmt_enum]: "PXFMT_G32_FLOAT = 14"
definition PXFMT_B8_UNORM :: pxfmt_sized_format where [pxfmt_enum]: "PXFMT_B8_UNORM = 15"
definition PXFMT_B8_SNORM :: pxfmt_sized_format where [pxfmt_enum]: "PXFMT_B8_SNORM = 16"
definition PXFMT_B16_UNORM :: pxfmt_sized_format where [pxfmt_enum]: "PXFMT_B16_UNORM = 17"
definition PXFMT_B16_SNORM :: pxfmt_sized_format where [pxfmt_enum]: "PXFMT_B16_SNORM = 18"
definition PXFMT_B32_UNORM :: pxfmt_sized_format where [pxfmt_enum]: "PXFMT_B32_UNORM = 19"
definition PXFMT_B32_SNORM :: pxfmt_sized_format where [pxfmt_enum]: "PXFMT_B32_SNORM = 20"
definition PXFMT_B32_FLOAT :: pxfmt_sized_format where [pxfmt_enum]: "PXFMT_B32_FLOAT = 21"
definition PXFMT_A8_UNORM :: pxfmt_sized_format where [pxfmt_enum]: "PXFMT_A8_UNORM = 22"
definition PXFMT_A8_SNORM :: pxfmt_sized_format where [pxfmt_enum]: "PXFMT_A8_SNORM = 23"
definition PXFMT_A16_UNORM :: pxfmt_sized_format where [pxfmt_enum]: "PXFMT_A16_UNORM = 24"
definition PXFMT_A16_SNORM :: pxfmt_sized_format where [pxfmt_enum]: "PXFMT_A16_SNORM = 25"
definition PXFMT_A32_UNORM :: pxfmt_sized_format where [pxfmt_enum]: "PXFMT_A32_UNORM = 26"
definition PXFMT_A32_SNORM :: pxfmt_sized_format where [pxfmt_enum]: "PXFMT_A32_SNORM = 27"
definition PXFMT_A32_FLOAT :: pxfmt_sized_format where [pxfmt_enum]: "PXFMT_A32_FLOAT = 28"
definition PXFMT_RG8_UNORM :: pxfmt_sized_format where [pxfmt_enum]: "PXFMT_RG8_UNORM = 29"
definition PXFMT_RG8_SNORM :: pxfmt_sized_format where [pxfmt_enum]: "PXFMT_RG8_SNORM = 30"
definition PXFMT_RG16_UNORM :: pxfmt_sized_format where [pxfmt_enum]: "PXFMT_RG16_UNORM = 31"
definition PXFMT_RG16_SNORM :: pxfmt_sized_format where [pxfmt_enum]: "PXFMT_RG16_SNORM = 32"
definition PXFMT_RG32_UNORM :: pxfmt_sized_format where [pxfmt_enum]: "PXFMT_RG32_UNORM = 33"
definition PXFMT_RG32_SNORM :: pxfmt_sized_format where [pxfmt_enum]: "PXFMT_RG32_SNORM = 34"
definition PXFMT_RG32_FLOAT :: pxfmt_sized_format where [pxfmt_enum]: "PXFMT_RG32_FLOAT = 35"
definition PXFMT_RGB8_UNORM :: pxfmt_sized_format where [pxfmt_enum]: "PXFMT_RGB8_UNORM = 36"
definition PXFMT_RGB8_SNORM :: pxfmt_sized_format where [pxfmt_enum]: "PXFMT_RGB8_SNORM = 37"
definition PXFMT_RGB16_UNORM :: pxfmt_sized_format where [pxfmt_enum]: "PXFMT_RGB16_UNORM = 38"
definition PXFMT_RGB16_SNORM :: pxfmt_sized_format where [pxfmt_enum]: "PXFMT_RGB16_SNORM = 39"
definition PXFMT_RGB32_UNORM :: pxfmt_sized_format where [pxfmt_enum]: "PXFMT_RGB32_UNORM = 40"
definition PXFMT_RGB32_SNORM :: pxfmt_sized_format where [pxfmt_enum]: "PXFMT_RGB32_SNORM = 41"
definition PXFMT_RGB32_FLOAT :: pxfmt_sized_format where [pxfmt_enum]: "PXFMT_RGB32_FLOAT = 42"
definition PXFMT_RGB332_UNORM :: pxfmt_sized_format where [pxfmt_enum]: "PXFMT_RGB332_UNORM = 43"
definition PXFMT_RGB233_UNORM :: pxfmt_sized_format where [pxfmt_enum]: "PXFMT_RGB233_UNORM = 44"
definition PXFMT_RGB565_UNORM :: pxfmt_sized_format where [pxfmt_enum]: "PXFMT_RGB565_UNORM = 45"
definition PXFMT_RGB565REV_UNORM :: pxfmt_sized_format where [pxfmt_enum]: "PXFMT_RGB565REV_UNORM = 46"
definition PXFMT_RGBA8_UNORM :: pxfmt_sized_format where [pxfmt_enum]: "PXFMT_RGBA8_UNORM = 47"
definition PXFMT_RGBA8_SNORM :: pxfmt_sized_format where [pxfmt_enum]: "PXFMT_RGBA8_SNORM = 48"
definition PXFMT_RGBA16_UNORM :: pxfmt_sized_format where [pxfmt_enum]: "PXFMT_RGBA16_UNORM = 49"
definition PXFMT_RGBA16_SNORM :: pxfmt_sized_format where [pxfmt_enum]: "PXFMT_RGBA16_SNORM = 50"
definition PXFMT_RGBA32_UNORM :: pxfmt_sized_format where [pxfmt_enum]: "PXFMT_RGBA32_UNORM = 51"
definition PXFMT_RGBA32_SNORM :: pxfmt_sized_format where [pxfmt_enum]: "PXFMT_RGBA32_SNORM = 52"
definition PXFMT_RGBA32_FLOAT :: pxfmt_sized_format where [pxfmt_enum]: "PXFMT_RGBA32_FLOAT = 53"
definition PXFMT_RGBA4_UNORM :: pxfmt_sized_format where [pxfmt_enum]: "PXFMT_RGBA4_UNORM = 54"
definition PXFMT_RGBA4REV_UNORM :: pxfmt_sized_format where [pxfmt_enum]: "PXFMT_RGBA4REV_UNORM = 55"
definition PXFMT_RGB5A1_UNORM :: pxfmt_sized_format where [pxfmt_enum]: "PXFMT_RGB5A1_UNORM = 56"
definition PXFMT_A1RGB5_UNORM :: pxfmt_sized_format where [pxfmt_enum]: "PXFMT_A1RGB5_UNORM = 57"
definition PXFMT_RGBA8REV_UNORM :: pxfmt_sized_format where [pxfmt_enum]: "PXFMT_RGBA8REV_UNORM = 58"
definition PXFMT_RGB10A2_UNORM :: pxfmt_sized_format where [pxfmt_enum]: "PXFMT_RGB10A2_UNORM = 59"
definition PXFMT_A2RGB10_UNORM :: pxfmt_sized_format where [pxfmt_enum]: "PXFMT_A2RGB10_UNORM = 60"
definition PXFMT_BGRA8_UNORM :: pxfmt_sized_format where [pxfmt_enum]: "PXFMT_BGRA8_UNORM = 61"
definition PXFMT_BGRA8_SNORM :: pxfmt_sized_format where [pxfmt_enum]: "PXFMT_BGRA8_SNORM = 62"
definition PXFMT_BGRA16_UNORM :: pxfmt_sized_format where [pxfmt_enum]: "PXFMT_BGRA16_UNORM = 63"
definition PXFMT_BGRA16_SNORM :: pxfmt_sized_format where [pxfmt_enum]: "PXFMT_BGRA16_SNORM = 64"
definition PXFMT_BGRA32_UNORM :: pxfmt_sized_format where [pxfmt_enum]: "PXFMT_BGRA32_UNORM = 65"
definition PXFMT_BGRA32_SNORM :: pxfmt_sized_format where [pxfmt_enum]: "PXFMT_BGRA32_SNORM = 66"
definition PXFMT_BGRA32_FLOAT :: pxfmt_sized_format where [pxfmt_enum]: "PXFMT_BGRA32_FLOAT = 67"
definition PXFMT_BGRA4_UNORM :: pxfmt_sized_format where [pxfmt_enum]: "PXFMT_BGRA4_UNORM = 68"
definition PXFMT_BGRA4REV_UNORM :: pxfmt_sized_format where [pxfmt_enum]: "PXFMT_BGRA4REV_UNORM = 69"
definition PXFMT_BGR5A1_UNORM :: pxfmt_sized_format where [pxfmt_enum]: "PXFMT_BGR5A1_UNORM = 70"
definition PXFMT_A1BGR5_UNORM :: pxfmt_sized_format where [pxfmt_enum]: "PXFMT_A1BGR5_UNORM = 71"
definition PXFMT_BGRA8REV_UNORM :: pxfmt_sized_format where [pxfmt_enum]: "PXFMT_BGRA8REV_UNORM = 72"
definition PXFMT_BGR10A2_UNORM :: pxfmt_sized_format where [pxfmt_enum]: "PXFMT_BGR10A2_UNORM = 73"
definition PXFMT_A2BGR10_UNORM :: pxfmt_sized_format where [pxfmt_enum]: "PXFMT_A2BGR10_UNORM = 74"
definition PXFMT_R8_UINT :: pxfmt_sized_format where [pxfmt_enum]: "PXFMT_R8_UINT = 75"
definition PXFMT_R8_SINT :: pxfmt_sized_format where [pxfmt_enum]: "PXFMT_R8_SINT = 76"
definition PXFMT_R16_UINT :: pxfmt_sized_format where [pxfmt_enum]: "PXFMT_R16_UINT = 77"
definition PXFMT_R16_SINT :: pxfmt_sized_format where [pxfmt_enum]: "PXFMT_R16_SINT = 78"
definition PXFMT_R32_UINT :: pxfmt_sized_format where [pxfmt_enum]: "PXFMT_R32_UINT = 79"
definition PXFMT_R32_SINT :: pxfmt_sized_format where [pxfmt_enum]: "PXFMT_R32_SINT = 80"
definition PXFMT_G8_UINT :: pxfmt_sized_format where [pxfmt_enum]: "PXFMT_G8_UINT = 81"
definition PXFMT_G8_SINT :: pxfmt_sized_format where [pxfmt_enum]: "PXFMT_G8_SINT = 82"
definition PXFMT_G16_UINT :: pxfmt_sized_format where [pxfmt_enum]: "PXFMT_G16_UINT = 83"
definition PXFMT_G16_SINT :: pxfmt_sized_format where [pxfmt_enum]: "PXFMT_G16_SINT = 84"
definition PXFMT_G32_UINT :: pxfmt_sized_format where [pxfmt_enum]: "PXFMT_G32_UINT = 85"
definition PXFMT_G32_SINT :: pxfmt_sized_format where [pxfmt_enum]: "PXFMT_G32_SINT = 86"
definition PXFMT_B8_UINT :: pxfmt_sized_format where [pxfmt_enum]: "PXFMT_B8_UINT = 87"
definition PXFMT_B8_SINT :: pxfmt_sized_format where [pxfmt_enum]: "PXFMT_B8_SINT = 88"
definition PXFMT_B16_UINT :: pxfmt_sized_format where [pxfmt_enum]: "PXFMT_B16_UINT = 89"
definition PXFMT_B16_SINT :: pxfmt_sized_format where [pxfmt_enum]: "PXFMT_B16_SINT = 90"
definition PXFMT_B32_UINT :: pxfmt_sized_format where [pxfmt_enum]: "PXFMT_B32_UINT = 91"
definition PXFMT_B32_SINT :: pxfmt_sized_format where [pxfmt_enum]: "PXFMT_B32_SINT = 92"
definition PXFMT_A8_UINT :: pxfmt_sized_format where [pxfmt_enum]: "PXFMT_A8_UINT = 93"
definition PXFMT_A8_SINT :: pxfmt_sized_format where [pxfmt_enum]: "PXFMT_A8_SINT = 94"
definition PXFMT_A16_UINT :: pxfmt_sized_format where [pxfmt_enum]: "PXFMT_A16_UINT = 95"
definition PXFMT_A16_SINT :: pxfmt_sized_format where [pxfmt_enum]: "PXFMT_A16_SINT = 96"
definition PXFMT_A32_UINT :: pxfmt_sized_format where [pxfmt_enum]: "PXFMT_A32_UINT = 97"
definition PXFMT_A32_SINT :: pxfmt_sized_format where [pxfmt_enum]: "PXFMT_A32_SINT = 98"
definition PXFMT_RG8_UINT :: pxfmt_sized_format where [pxfmt_enum]: "PXFMT_RG8_UINT = 99"
definition PXFMT_RG8_SINT :: pxfmt_sized_format where [pxfmt_enum]: "PXFMT_RG8_SINT = 100"
definition PXFMT_RG16_UINT :: pxfmt_sized_format where [pxfmt_enum]: "PXFMT_RG16_UINT = 101"
definition PXFMT_RG16_SINT :: pxfmt_sized_format where [pxfmt_enum]: "PXFMT_RG16_SINT = 102"
definition PXFMT_RG32_UINT :: pxfmt_sized_format where [pxfmt_enum]: "PXFMT_RG32_UINT = 103"
definition PXFMT_RG32_SINT :: pxfmt_sized_format where [pxfmt_enum]: "PXFMT_RG32_SINT = 104"
definition PXFMT_RGB8_UINT :: pxfmt_sized_format where [pxfmt_enum]: "PXFMT_RGB8_UINT = 105"
definition PXFMT_RGB8_SINT :: pxfmt_sized_format where [pxfmt_enum]: "PXFMT_RGB8_SINT = 106"
definition PXFMT_RGB16_UINT :: pxfmt_sized_format where [pxfmt_enum]: "PXFMT_RGB16_UINT = 107"
definition PXFMT_RGB16_SINT :: pxfmt_sized_format where [pxfmt_enum]: "PXFMT_RGB16_SINT = 108"
definition PXFMT_RGB32_UINT :: pxfmt_sized_format where [pxfmt_enum]: "PXFMT_RGB32_UINT = 109"
definition PXFMT_RGB32_SINT :: pxfmt_sized_format where [pxfmt_enum]: "PXFMT_RGB32_SINT = 110"
definition PXFMT_RGB332_UINT :: pxfmt_sized_format where [pxfmt_enum]: "PXFMT_RGB332_UINT = 111"
definition PXFMT_RGB233_UINT :: pxfmt_sized_format where [pxfmt_enum]: "PXFMT_RGB233_UINT = 112"
definition PXFMT_RGB565_UINT :: pxfmt_sized_format where [pxfmt_enum]: "PXFMT_RGB565_UINT = 113"
definition PXFMT_RGB565REV_UINT :: pxfmt_sized_format where [pxfmt_enum]: "PXFMT_RGB565REV_UINT = 114"
definition PXFMT_RGBA8_UINT :: pxfmt_sized_format where [pxfmt_enum]: "PXFMT_RGBA8_UINT = 115"
definition PXFMT_RGBA8_SINT :: pxfmt_sized_format where [pxfmt_enum]: "PXFMT_RGBA8_SINT = 116"
definition PXFMT_RGBA16_UINT :: pxfmt_sized_format where [pxfmt_enum]: "PXFMT_RGBA16_UINT = 117"
definition PXFMT_RGBA16_SINT :: pxfmt_sized_format where [pxfmt_enum]: "PXFMT_RGBA16_SINT = 118"
definition PXFMT_RGBA32_UINT :: pxfmt_sized_format where [pxfmt_enum]: "PXFMT_RGBA32_UINT = 119"
definition PXFMT_RGBA32_SINT :: pxfmt_sized_format where [pxfmt_enum]: "PXFMT_RGBA32_SINT = 120"
definition PXFMT_RGBA4_UINT :: pxfmt_sized_format where [pxfmt_enum]: "PXFMT_RGBA4_UINT = 121"
definition PXFMT_RGBA4REV_UINT :: pxfmt_sized_format where [pxfmt_enum]: "PXFMT_RGBA4REV_UINT = 122"
definition PXFMT_RGB5A1_UINT :: pxfmt_sized_format where [pxfmt_enum]: "PXFMT_RGB5A1_UINT = 123"
definition PXFMT_A1RGB5_UINT :: pxfmt_sized_format where [pxfmt_enum]: "PXFMT_A1RGB5_UINT = 124"
definition PXFMT_RGBA8REV_UINT :: pxfmt_sized_format where [pxfmt_enum]: "PXFMT_RGBA8REV_UINT = 125"
definition PXFMT_RGB10A2_UINT :: pxfmt_sized_format where [pxfmt_enum]: "PXFMT_RGB10A2_UINT = 126"
definition PXFMT_A2RGB10_UINT :: pxfmt_sized_format where [pxfmt_enum]: "PXFMT_A2RGB10_UINT = 127"
definition PXFMT_BGRA8_UINT :: pxfmt_sized_format where [pxfmt_enum]: "PXFMT_BGRA8_UINT = 128"
definition PXFMT_BGRA8_SINT :: pxfmt_sized_format where [pxfmt_enum]: "PXFMT_BGRA8_SINT = 129"
definition PXFMT_BGRA16_UINT :: pxfmt_sized_format where [pxfmt_enum]: "PXFMT_BGRA16_UINT = 130"
definition PXFMT_BGRA16_SINT :: pxfmt_sized_format where [pxfmt_enum]: "PXFMT_BGRA16_SINT = 131"
definition PXFMT_BGRA32_UINT :: pxfmt_sized_format where [pxfmt_enum]: "PXFMT_BGRA32_UINT = 132"
definition PXFMT_BGRA32_SINT :: pxfmt_sized_format where [pxfmt_enum]: "PXFMT_BGRA32_SINT = 133"
definition PXFMT_BGRA4_UINT :: pxfmt_sized_format where [pxfmt_enum]: "PXFMT_BGRA4_UINT = 134"
definition PXFMT_BGRA4REV_UINT :: pxfmt_sized_format where [pxfmt_enum]: "PXFMT_BGRA4REV_UINT = 135"
definition PXFMT_BGR5A1_UINT :: pxfmt_sized_format where [pxfmt_enum]: "PXFMT_BGR5A1_UINT = 136"
definition PXFMT_A1BGR5_UINT :: pxfmt_sized_format where [pxfmt_enum]: "PXFMT_A1BGR5_UINT = 137"
definition PXFMT_BGRA8REV_UINT :: pxfmt_sized_format where [pxfmt_enum]: "PXFMT_BGRA8REV_UINT = 138"
definition PXFMT_BGR10A2_UINT :: pxfmt_sized_format where [pxfmt_enum]: "PXFMT_BGR10A2_UINT = 139"
definition PXFMT_A2BGR10_UINT :: pxfmt_sized_format where [pxfmt_enum]: "PXFMT_A2BGR10_UINT = 140"
definition PXFMT_D8_UNORM :: pxfmt_sized_format where [pxfmt_enum]: "PXFMT_D8_UNORM = 141"
definition PXFMT_D8_SNORM :: pxfmt_sized_format where [pxfmt_enum]: "PXFMT_D8_SNORM = 142"
definition PXFMT_D16_UNORM :: pxfmt_sized_format where [pxfmt_enum]: "PXFMT_D16_UNORM = 143"
definition PXFMT_D16_SNORM :: pxfmt_sized_format where [pxfmt_enum]: "PXFMT_D16_SNORM = 144"
definition PXFMT_D32_UNORM :: pxfmt_sized_format where [pxfmt_enum]: "PXFMT_D32_UNORM = 145"
definition PXFMT_D32_SNORM :: pxfmt_sized_format where [pxfmt_enum]: "PXFMT_D32_SNORM = 146"
definition PXFMT_D32_FLOAT :: pxfmt_sized_format where [pxfmt_enum]: "PXFMT_D32_FLOAT = 147"
definition PXFMT_S8_UINT :: pxfmt_sized_format where [pxfmt_enum]: "PXFMT_S8_UINT = 148"
definition PXFMT_S8_SINT :: pxfmt_sized_format where [pxfmt_enum]: "PXFMT_S8_SINT = 149"
definition PXFMT_S16_UINT :: pxfmt_sized_format where [pxfmt_enum]: "PXFMT_S16_UINT = 150"
definition PXFMT_S16_SINT :: pxfmt_sized_format where [pxfmt_enum]: "PXFMT_S16_SINT = 151"
definition PXFMT_S32_UINT :: pxfmt_sized_format where [pxfmt_enum]: "PXFMT_S32_UINT = 152"
definition PXFMT_S32_SINT :: pxfmt_sized_format where [pxfmt_enum]: "PXFMT_S32_SINT = 153"
definition PXFMT_S32_FLOAT :: pxfmt_sized_format where [pxfmt_enum]: "PXFMT_S32_FLOAT = 154"
definition PXFMT_D24_UNORM_S8_UINT :: pxfmt_sized_format where [pxfmt_enum]: "PXFMT_D24_UNORM_S8_UINT = 155"
definition PXFMT_D32_FLOAT_S8_UINT :: pxfmt_sized_format where [pxfmt_enum]: "PXFMT_D32_FLOAT_S8_UINT = 156"

subsection \<open>\<^verbatim>\<open>max_values\<close> and \<^verbatim>\<open>FMT_INFO\<close>\<close>

text \<open>
  \<^verbatim>\<open>(uint32) ((1ULL << ((!is_signed) ? nbits : (nbits > 0) ? nbits - 1 : 0)) - 1)\<close>:
  the shift is done on 64 bits and the result cut to 32.
\<close>

definition max_values :: "bool \<Rightarrow> nat \<Rightarrow> uint32" where
  "max_values is_signed nbits =
     ucast (push_bit (if \<not> is_signed then nbits else if nbits > 0 then nbits - 1 else 0)
              (1 :: 64 word) - 1)"

record pxfmt_per_fmt_info =
  m_fmt :: pxfmt_sized_format
  m_formatted_type :: ctype
  m_intermediate_type :: ctype
  m_num_components :: uint32
  m_bytes_per_pixel :: uint32
  m_needs_fp_intermediate :: bool
  m_is_normalized :: bool
  m_is_signed :: bool
  m_is_packed :: bool
  m_index :: "int list"
  m_max :: "uint32 list"
  m_shift :: "uint32 list"
  m_mask :: "uint32 list"

text \<open>
  The macro \<^verbatim>\<open>FMT_INFO\<close>: the four arrays are computed from the arguments as the macro
  does, \<^verbatim>\<open>m_mask[i] = max_values<is_signed, nbits_i>::m_max << shift_i\<close> on 32 bits.
\<close>

definition FMT_INFO ::
  "pxfmt_sized_format \<Rightarrow> ctype \<Rightarrow> ctype \<Rightarrow> uint32 \<Rightarrow> uint32 \<Rightarrow> bool \<Rightarrow> bool \<Rightarrow> bool \<Rightarrow> bool \<Rightarrow>
   int \<Rightarrow> int \<Rightarrow> int \<Rightarrow> int \<Rightarrow> nat \<Rightarrow> nat \<Rightarrow> nat \<Rightarrow> nat \<Rightarrow> nat \<Rightarrow> nat \<Rightarrow> nat \<Rightarrow> nat \<Rightarrow>
   pxfmt_per_fmt_info" where
  "FMT_INFO F ftype itype ncomps bypp needfp normalized is_signed pack
     in0 in1 in2 in3 nbits0 nbits1 nbits2 nbits3 shift0 shift1 shift2 shift3 =
   \<lparr> m_fmt = F,
     m_formatted_type = ftype,
     m_intermediate_type = itype,
     m_num_components = ncomps,
     m_bytes_per_pixel = bypp,
     m_needs_fp_intermediate = needfp,
     m_is_normalized = normalized,
     m_is_signed = is_signed,
     m_is_packed = pack,
     m_index = [in0, in1, in2, in3],
     m_max = [max_values is_signed nbits0, max_values is_signed nbits1,
              max_values is_signed nbits2, max_values is_signed nbits3],
     m_shift = [of_nat shift0, of_nat shift1, of_nat shift2, of_nat shift3],
     m_mask = [push_bit shift0 (max_values is_signed nbits0),
               push_bit shift1 (max_values is_signed nbits1),
               push_bit shift2 (max_values is_signed nbits2),
               push_bit shift3 (max_values is_signed nbits3)] \<rparr>"

text \<open>The 156 \<^verbatim>\<open>FMT_INFO\<close> lines, in the order of the file.\<close>

definition fmt_info_table :: "pxfmt_per_fmt_info list" where
  "fmt_info_table = [
  FMT_INFO PXFMT_R8_UNORM Uint8 Double 1 1 True True False False  0 (-1) (-1) (-1)  8 0 0 0  0 0 0 0,
  FMT_INFO PXFMT_R8_SNORM Int8 Double 1 1 True True True False  0 (-1) (-1) (-1)  8 0 0 0  0 0 0 0,
  FMT_INFO PXFMT_R16_UNORM Uint16 Double 1 2 True True False False  0 (-1) (-1) (-1)  16 0 0 0  0 0 0 0,
  FMT_INFO PXFMT_R16_SNORM Int16 Double 1 2 True True True False  0 (-1) (-1) (-1)  16 0 0 0  0 0 0 0,
  FMT_INFO PXFMT_R32_UNORM Uint32 Double 1 4 True True False False  0 (-1) (-1) (-1)  32 0 0 0  0 0 0 0,
  FMT_INFO PXFMT_R32_SNORM Int32 Double 1 4 True True True False  0 (-1) (-1) (-1)  32 0 0 0  0 0 0 0,
  FMT_INFO PXFMT_R32_FLOAT Float Double 1 4 True False False False  0 (-1) (-1) (-1)  0 0 0 0  0 0 0 0,
  FMT_INFO PXFMT_G8_UNORM Uint8 Double 1 1 True True False False  1 (-1) (-1) (-1)  8 0 0 0  0 0 0 0,
  FMT_INFO PXFMT_G8_SNORM Int8 Double 1 1 True True True False  1 (-1) (-1) (-1)  8 0 0 0  0 0 0 0,
  FMT_INFO PXFMT_G16_UNORM Uint16 Double 1 2 True True False False  1 (-1) (-1) (-1)  16 0 0 0  0 0 0 0,
  FMT_INFO PXFMT_G16_SNORM Int16 Double 1 2 True True True False  1 (-1) (-1) (-1)  16 0 0 0  0 0 0 0,
  FMT_INFO PXFMT_G32_UNORM Uint32 Double 1 4 True True False False  1 (-1) (-1) (-1)  32 0 0 0  0 0 0 0,
  FMT_INFO PXFMT_G32_SNORM Int32 Double 1 4 True True True False  1 (-1) (-1) (-1)  32 0 0 0  0 0 0 0,
  FMT_INFO PXFMT_G32_FLOAT Float Double 1 4 True False False False  1 (-1) (-1) (-1)  0 0 0 0  0 0 0 0,
  FMT_INFO PXFMT_B8_UNORM Uint8 Double 1 1 True True False False  2 (-1) (-1) (-1)  8 0 0 0  0 0 0 0,
  FMT_INFO PXFMT_B8_SNORM Int8 Double 1 1 True True True False  2 (-1) (-1) (-1)  8 0 0 0  0 0 0 0,
  FMT_INFO PXFMT_B16_UNORM Uint16 Double 1 2 True True False False  2 (-1) (-1) (-1)  16 0 0 0  0 0 0 0,
  FMT_INFO PXFMT_B16_SNORM Int16 Double 1 2 True True True False  2 (-1) (-1) (-1)  16 0 0 0  0 0 0 0,
  FMT_INFO PXFMT_B32_UNORM Uint32 Double 1 4 True True False False  2 (-1) (-1) (-1)  32 0 0 0  0 0 0 0,
  FMT_INFO PXFMT_B32_SNORM Int32 Double 1 4 True True True False  2 (-1) (-1) (-1)  32 0 0 0  0 0 0 0,
  FMT_INFO PXFMT_B32_FLOAT Float Double 1 4 True False False False  2 (-1) (-1) (-1)  0 0 0 0  0 0 0 0,
  FMT_INFO PXFMT_A8_UNORM Uint8 Double 1 1 True True False False  3 (-1) (-1) (-1)  8 0 0 0  0 0 0 0,
  FMT_INFO PXFMT_A8_SNORM Int8 Double 1 1 True True True False  3 (-1) (-1) (-1)  8 0 0 0  0 0 0 0,
  FMT_INFO PXFMT_A16_UNORM Uint16 Double 1 2 True True False False  3 (-1) (-1) (-1)  16 0 0 0  0 0 0 0,
  FMT_INFO PXFMT_A16_SNORM Int16 Double 1 2 True True True False  3 (-1) (-1) (-1)  16 0 0 0  0 0 0 0,
  FMT_INFO PXFMT_A32_UNORM Uint32 Double 1 4 True True False False  3 (-1) (-1) (-1)  32 0 0 0  0 0 0 0,
  FMT_INFO PXFMT_A32_SNORM Int32 Double 1 4 True True True False  3 (-1) (-1) (-1)  32 0 0 0  0 0 0 0,
  FMT_INFO PXFMT_A32_FLOAT Float Double 1 4 True False False False  3 (-1) (-1) (-1)  0 0 0 0  0 0 0 0,
  FMT_INFO PXFMT_RG8_UNORM Uint8 Double 2 2 True True False False  0 1 (-1) (-1)  8 8 0 0  0 0 0 0,
  FMT_INFO PXFMT_RG8_SNORM Int8 Double 2 2 True True True False  0 1 (-1) (-1)  8 8 0 0  0 0 0 0,
  FMT_INFO PXFMT_RG16_UNORM Uint16 Double 2 4 True True False False  0 1 (-1) (-1)  16 16 0 0  0 0 0 0,
  FMT_INFO PXFMT_RG16_SNORM Int16 Double 2 4 True True True False  0 1 (-1) (-1)  16 16 0 0  0 0 0 0,
  FMT_INFO PXFMT_RG32_UNORM Uint32 Double 2 8 True True False False  0 1 (-1) (-1)  32 32 0 0  0 0 0 0,
  FMT_INFO PXFMT_RG32_SNORM Int32 Double 2 8 True True True False  0 1 (-1) (-1)  32 32 0 0  0 0 0 0,
  FMT_INFO PXFMT_RG32_FLOAT Float Double 2 8 True False False False  0 1 (-1) (-1)  0 0 0 0  0 0 0 0,
  FMT_INFO PXFMT_RGB8_UNORM Uint8 Double 3 3 True True False False  0 1 2 (-1)  8 8 8 0  0 0 0 0,
  FMT_INFO PXFMT_RGB8_SNORM Int8 Double 3 3 True True True False  0 1 2 (-1)  8 8 8 0  0 0 0 0,
  FMT_INFO PXFMT_RGB16_UNORM Uint16 Double 3 6 True True False False  0 1 2 (-1)  16 16 16 0  0 0 0 0,
  FMT_INFO PXFMT_RGB16_SNORM Int16 Double 3 6 True True True False  0 1 2 (-1)  16 16 16 0  0 0 0 0,
  FMT_INFO PXFMT_RGB32_UNORM Uint32 Double 3 12 True True False False  0 1 2 (-1)  32 32 32 0  0 0 0 0,
  FMT_INFO PXFMT_RGB32_SNORM Int32 Double 3 12 True True True False  0 1 2 (-1)  32 32 32 0  0 0 0 0,
  FMT_INFO PXFMT_RGB32_FLOAT Float Double 3 12 True False False False  0 1 2 (-1)  0 0 0 0  0 0 0 0,
  FMT_INFO PXFMT_RGB332_UNORM Uint8 Double 3 1 True True False True  0 1 2 (-1)  3 3 2 0  5 2 0 0,
  FMT_INFO PXFMT_RGB233_UNORM Uint8 Double 3 1 True True False True  0 1 2 (-1)  3 3 2 0  0 3 6 0,
  FMT_INFO PXFMT_RGB565_UNORM Uint16 Double 3 2 True True False True  0 1 2 (-1)  5 6 5 0  11 5 0 0,
  FMT_INFO PXFMT_RGB565REV_UNORM Uint16 Double 3 2 True True False True  0 1 2 (-1)  5 6 5 0  0 5 11 0,
  FMT_INFO PXFMT_RGBA8_UNORM Uint32 Double 4 4 True True False True  0 1 2 3  8 8 8 8  0 8 16 24,
  FMT_INFO PXFMT_RGBA8_SNORM Uint32 Double 4 4 True True True True  0 1 2 3  8 8 8 8  0 8 16 24,
  FMT_INFO PXFMT_RGBA16_UNORM Uint16 Double 4 8 True True False False  0 1 2 3  16 16 16 16  0 0 0 0,
  FMT_INFO PXFMT_RGBA16_SNORM Int16 Double 4 8 True True True False  0 1 2 3  16 16 16 16  0 0 0 0,
  FMT_INFO PXFMT_RGBA32_UNORM Uint32 Double 4 16 True True False False  0 1 2 3  32 32 32 32  0 0 0 0,
  FMT_INFO PXFMT_RGBA32_SNORM Int32 Double 4 16 True True True False  0 1 2 3  32 32 32 32  0 0 0 0,
  FMT_INFO PXFMT_RGBA32_FLOAT Float Double 4 16 True False False False  0 1 2 3  0 0 0 0  0 0 0 0,
  FMT_INFO PXFMT_RGBA4_UNORM Uint16 Double 4 2 True True False True  0 1 2 3  4 4 4 4  12 8 4 0,
  FMT_INFO PXFMT_RGBA4REV_UNORM Uint16 Double 4 2 True True False True  0 1 2 3  4 4 4 4  0 4 8 12,
  FMT_INFO PXFMT_RGB5A1_UNORM Uint16 Double 4 2 True True False True  0 1 2 3  5 5 5 1  11 6 1 0,
  FMT_INFO PXFMT_A1RGB5_UNORM Uint16 Double 4 2 True True False True  0 1 2 3  5 5 5 1  0 5 10 15,
  FMT_INFO PXFMT_RGBA8REV_UNORM Uint32 Double 4 4 True True False True  0 1 2 3  8 8 8 8  24 16 8 0,
  FMT_INFO PXFMT_RGB10A2_UNORM Uint32 Double 4 4 True True False True  0 1 2 3  10 10 10 2  22 12 2 0,
  FMT_INFO PXFMT_A2RGB10_UNORM Uint32 Double 4 4 True True False True  0 1 2 3  10 10 10 2  0 10 20 30,
  FMT_INFO PXFMT_BGRA8_UNORM Uint32 Double 4 4 True True False True  0 1 2 3  8 8 8 8  16 8 0 24,
  FMT_INFO PXFMT_BGRA8_SNORM Uint32 Double 4 4 True True True True  0 1 2 3  8 8 8 8  16 8 0 24,
  FMT_INFO PXFMT_BGRA16_UNORM Uint16 Double 4 8 True True False False  2 1 0 3  16 16 16 16  0 0 0 0,
  FMT_INFO PXFMT_BGRA16_SNORM Int16 Double 4 8 True True True False  2 1 0 3  16 16 16 16  0 0 0 0,
  FMT_INFO PXFMT_BGRA32_UNORM Uint32 Double 4 16 True True False False  2 1 0 3  32 32 32 32  0 0 0 0,
  FMT_INFO PXFMT_BGRA32_SNORM Int32 Double 4 16 True True True False  2 1 0 3  32 32 32 32  0 0 0 0,
  FMT_INFO PXFMT_BGRA32_FLOAT Float Double 4 16 True False False False  2 1 0 3  0 0 0 0  0 0 0 0,
  FMT_INFO PXFMT_BGRA4_UNORM Uint16 Double 4 2 True True False True  0 1 2 3  4 4 4 4  4 8 12 0,
  FMT_INFO PXFMT_BGRA4REV_UNORM Uint16 Double 4 2 True True False True  0 1 2 3  4 4 4 4  0 12 8 4,
  FMT_INFO PXFMT_BGR5A1_UNORM Uint16 Double 4 2 True True False True  0 1 2 3  5 5 5 1  1 6 11 0,
  FMT_INFO PXFMT_A1BGR5_UNORM Uint16 Double 4 2 True True False True  0 1 2 3  5 5 5 1  10 5 0 15,
  FMT_INFO PXFMT_BGRA8REV_UNORM Uint32 Double 4 4 True True False True  0 1 2 3  8 8 8 8  24 0 8 16,
  FMT_INFO PXFMT_BGR10A2_UNORM Uint32 Double 4 4 True True False True  0 1 2 3  10 10 10 2  2 12 22 0,
  FMT_INFO PXFMT_A2BGR10_UNORM Uint32 Double 4 4 True True False True  0 1 2 3  10 10 10 2  20 10 0 30,
  FMT_INFO PXFMT_R8_UINT Uint8 Uint32 1 1 False False False False  0 (-1) (-1) (-1)  8 0 0 0  0 0 0 0,
  FMT_INFO PXFMT_R8_SINT Int8 Uint32 1 1 False False True False  0 (-1) (-1) (-1)  8 0 0 0  0 0 0 0,
  FMT_INFO PXFMT_R16_UINT Uint16 Uint32 1 2 False False False False  0 (-1) (-1) (-1)  16 0 0 0  0 0 0 0,
  FMT_INFO PXFMT_R16_SINT Int16 Uint32 1 2 False False True False  0 (-1) (-1) (-1)  16 0 0 0  0 0 0 0,
  FMT_INFO PXFMT_R32_UINT Uint32 Uint32 1 4 False False False False  0 (-1) (-1) (-1)  32 0 0 0  0 0 0 0,
  FMT_INFO PXFMT_R32_SINT Int32 Uint32 1 4 False False True False  0 (-1) (-1) (-1)  32 0 0 0  0 0 0 0,
  FMT_INFO PXFMT_G8_UINT Uint8 Uint32 1 1 False False False False  1 (-1) (-1) (-1)  8 0 0 0  0 0 0 0,
  FMT_INFO PXFMT_G8_SINT Int8 Uint32 1 1 False False True False  1 (-1) (-1) (-1)  8 0 0 0  0 0 0 0,
  FMT_INFO PXFMT_G16_UINT Uint16 Uint32 1 2 False False False False  1 (-1) (-1) (-1)  16 0 0 0  0 0 0 0,
  FMT_INFO PXFMT_G16_SINT Int16 Uint32 1 2 False False True False  1 (-1) (-1) (-1)  16 0 0 0  0 0 0 0,
  FMT_INFO PXFMT_G32_UINT Uint32 Uint32 1 4 False False False False  1 (-1) (-1) (-1)  32 0 0 0  0 0 0 0,
  FMT_INFO PXFMT_G32_SINT Int32 Uint32 1 4 False False True False  1 (-1) (-1) (-1)  32 0 0 0  0 0 0 0,
  FMT_INFO PXFMT_B8_UINT Uint8 Uint32 1 1 False False False False  2 (-1) (-1) (-1)  8 0 0 0  0 0 0 0,
  FMT_INFO PXFMT_B8_SINT Int8 Uint32 1 1 False False True False  2 (-1) (-1) (-1)  8 0 0 0  0 0 0 0,
  FMT_INFO PXFMT_B16_UINT Uint16 Uint32 1 2 False False False False  2 (-1) (-1) (-1)  16 0 0 0  0 0 0 0,
  FMT_INFO PXFMT_B16_SINT Int16 Uint32 1 2 False False True False  2 (-1) (-1) (-1)  16 0 0 0  0 0 0 0,
  FMT_INFO PXFMT_B32_UINT Uint32 Uint32 1 4 False False False False  2 (-1) (-1) (-1)  32 0 0 0  0 0 0 0,
  FMT_INFO PXFMT_B32_SINT Int32 Uint32 1 4 False False True False  2 (-1) (-1) (-1)  32 0 0 0  0 0 0 0,
  FMT_INFO PXFMT_A8_UINT Uint8 Uint32 1 1 False False False False  3 (-1) (-1) (-1)  8 0 0 0  0 0 0 0,
  FMT_INFO PXFMT_A8_SINT Int8 Uint32 1 1 False False True False  3 (-1) (-1) (-1)  8 0 0 0  0 0 0 0,
  FMT_INFO PXFMT_A16_UINT Uint16 Uint32 1 2 False False False False  3 (-1) (-1) (-1)  16 0 0 0  0 0 0 0,
  FMT_INFO PXFMT_A16_SINT Int16 Uint32 1 2 False False True False  3 (-1) (-1) (-1)  16 0 0 0  0 0 0 0,
  FMT_INFO PXFMT_A32_UINT Uint32 Uint32 1 4 False False False False  3 (-1) (-1) (-1)  32 0 0 0  0 0 0 0,
  FMT_INFO PXFMT_A32_SINT Int32 Uint32 1 4 False False True False  3 (-1) (-1) (-1)  32 0 0 0  0 0 0 0,
  FMT_INFO PXFMT_RG8_UINT Uint8 Uint32 2 2 False False False False  0 1 (-1) (-1)  8 8 0 0  0 0 0 0,
  FMT_INFO PXFMT_RG8_SINT Int8 Uint32 2 2 False False True False  0 1 (-1) (-1)  8 8 0 0  0 0 0 0,
  FMT_INFO PXFMT_RG16_UINT Uint16 Uint32 2 4 False False False False  0 1 (-1) (-1)  16 16 0 0  0 0 0 0,
  FMT_INFO PXFMT_RG16_SINT Int16 Uint32 2 4 False False True False  0 1 (-1) (-1)  16 16 0 0  0 0 0 0,
  FMT_INFO PXFMT_RG32_UINT Uint32 Uint32 2 8 False False False False  0 1 (-1) (-1)  32 32 0 0  0 0 0 0,
  FMT_INFO PXFMT_RG32_SINT Int32 Uint32 2 8 False False True False  0 1 (-1) (-1)  32 32 0 0  0 0 0 0,
  FMT_INFO PXFMT_RGB8_UINT Uint8 Uint32 3 3 False False False False  0 1 2 (-1)  8 8 8 0  0 0 0 0,
  FMT_INFO PXFMT_RGB8_SINT Int8 Uint32 3 3 False False True False  0 1 2 (-1)  8 8 8 0  0 0 0 0,
  FMT_INFO PXFMT_RGB16_UINT Uint16 Uint32 3 6 False False False False  0 1 2 (-1)  16 16 16 0  0 0 0 0,
  FMT_INFO PXFMT_RGB16_SINT Int16 Uint32 3 6 False False True False  0 1 2 (-1)  16 16 16 0  0 0 0 0,
  FMT_INFO PXFMT_RGB32_UINT Uint32 Uint32 3 12 False False False False  0 1 2 (-1)  32 32 32 0  0 0 0 0,
  FMT_INFO PXFMT_RGB32_SINT Int32 Uint32 3 12 False False True False  0 1 2 (-1)  32 32 32 0  0 0 0 0,
  FMT_INFO PXFMT_RGB332_UINT Uint8 Uint32 3 1 False False False True  0 1 2 (-1)  3 3 2 0  5 2 0 0,
  FMT_INFO PXFMT_RGB233_UINT Uint8 Uint32 3 1 False False False True  0 1 2 (-1)  3 3 2 0  0 3 6 0,
  FMT_INFO PXFMT_RGB565_UINT Uint8 Uint32 3 2 False False False True  0 1 2 (-1)  5 6 5 0  11 5 0 0,
  FMT_INFO PXFMT_RGB565REV_UINT Uint8 Uint32 3 2 False False False True  0 1 2 (-1)  5 6 5 0  0 5 11 0,
  FMT_INFO PXFMT_RGBA8_UINT Uint32 Uint32 4 4 False False False True  0 1 2 3  8 8 8 8  0 8 16 24,
  FMT_INFO PXFMT_RGBA8_SINT Uint32 Uint32 4 4 False False True True  0 1 2 3  8 8 8 8  0 8 16 24,
  FMT_INFO PXFMT_RGBA16_UINT Uint16 Uint32 4 8 False False False False  0 1 2 3  16 16 16 16  0 0 0 0,
  FMT_INFO PXFMT_RGBA16_SINT Int16 Uint32 4 8 False False True False  0 1 2 3  16 16 16 16  0 0 0 0,
  FMT_INFO PXFMT_RGBA32_UINT Uint32 Uint32 4 16 False False False False  0 1 2 3  32 32 32 32  0 0 0 0,
  FMT_INFO PXFMT_RGBA32_SINT Int32 Uint32 4 16 False False True False  0 1 2 3  32 32 32 32  0 0 0 0,
  FMT_INFO PXFMT_RGBA4_UINT Uint16 Uint32 4 2 False False False True  0 1 2 3  4 4 4 4  12 8 4 0,
  FMT_INFO PXFMT_RGBA4REV_UINT Uint16 Uint32 4 2 False False False True  0 1 2 3  4 4 4 4  0 4 8 12,
  FMT_INFO PXFMT_RGB5A1_UINT Uint16 Uint32 4 2 False False False True  0 1 2 3  5 5 5 1  11 6 1 0,
  FMT_INFO PXFMT_A1RGB5_UINT Uint16 Uint32 4 2 False False False True  0 1 2 3  5 5 5 1  0 5 10 15,
  FMT_INFO PXFMT_RGBA8REV_UINT Uint32 Uint32 4 4 False False False True  0 1 2 3  8 8 8 8  24 16 8 0,
  FMT_INFO PXFMT_RGB10A2_UINT Uint32 Uint32 4 4 False False False True  0 1 2 3  10 10 10 2  22 12 2 0,
  FMT_INFO PXFMT_A2RGB10_UINT Uint32 Uint32 4 4 False False False True  0 1 2 3  10 10 10 2  0 10 20 30,
  FMT_INFO PXFMT_BGRA8_UINT Uint32 Uint32 4 4 False False False True  0 1 2 3  8 8 8 8  16 8 0 24,
  FMT_INFO PXFMT_BGRA8_SINT Uint32 Uint32 4 4 False False True True  0 1 2 3  8 8 8 8  16 8 0 24,
  FMT_INFO PXFMT_BGRA16_UINT Uint16 Uint32 4 8 False False False False  2 1 0 3  16 16 16 16  0 0 0 0,
  FMT_INFO PXFMT_BGRA16_SINT Int16 Uint32 4 8 False False True False  2 1 0 3  16 16 16 16  0 0 0 0,
  FMT_INFO PXFMT_BGRA32_UINT Uint32 Uint32 4 16 False False False False  2 1 0 3  32 32 32 32  0 0 0 0,
  FMT_INFO PXFMT_BGRA32_SINT Int32 Uint32 4 16 False False True False  2 1 0 3  32 32 32 32  0 0 0 0,
  FMT_INFO PXFMT_BGRA4_UINT Uint16 Uint32 4 2 False False False True  0 1 2 3  4 4 4 4  4 8 12 0,
  FMT_INFO PXFMT_BGRA4REV_UINT Uint16 Uint32 4 2 False False False True  0 1 2 3  4 4 4 4  0 12 8 4,
  FMT_INFO PXFMT_BGR5A1_UINT Uint16 Uint32 4 2 False False False True  0 1 2 3  5 5 5 1  1 6 11 0,
  FMT_INFO PXFMT_A1BGR5_UINT Uint16 Uint32 4 2 False False False True  0 1 2 3  5 5 5 1  10 5 0 15,
  FMT_INFO PXFMT_BGRA8REV_UINT Uint32 Uint32 4 4 False False False True  0 1 2 3  8 8 8 8  24 0 8 16,
  FMT_INFO PXFMT_BGR10A2_UINT Uint32 Uint32 4 4 False False False True  0 1 2 3  10 10 10 2  2 12 22 0,
  FMT_INFO PXFMT_A2BGR10_UINT Uint32 Uint32 4 4 False False False True  0 1 2 3  10 10 10 2  20 10 0 30,
  FMT_INFO PXFMT_D8_UNORM Uint8 Double 1 1 True True False False  0 (-1) (-1) (-1)  8 0 0 0  0 0 0 0,
  FMT_INFO PXFMT_D8_SNORM Int8 Double 1 1 True True True False  0 (-1) (-1) (-1)  8 0 0 0  0 0 0 0,
  FMT_INFO PXFMT_D16_UNORM Uint16 Double 1 2 True True False False  0 (-1) (-1) (-1)  16 0 0 0  0 0 0 0,
  FMT_INFO PXFMT_D16_SNORM Int16 Double 1 2 True True True False  0 (-1) (-1) (-1)  16 0 0 0  0 0 0 0,
  FMT_INFO PXFMT_D32_UNORM Uint32 Double 1 4 True True False False  0 (-1) (-1) (-1)  32 0 0 0  0 0 0 0,
  FMT_INFO PXFMT_D32_SNORM Int32 Double 1 4 True True True False  0 (-1) (-1) (-1)  32 0 0 0  0 0 0 0,
  FMT_INFO PXFMT_D32_FLOAT Float Double 1 4 True False False False  0 (-1) (-1) (-1)  0 0 0 0  0 0 0 0,
  FMT_INFO PXFMT_S8_UINT Uint8 Uint32 1 1 False False False False  0 (-1) (-1) (-1)  0 0 0 0  0 0 0 0,
  FMT_INFO PXFMT_S8_SINT Int8 Uint32 1 1 False False True False  0 (-1) (-1) (-1)  0 0 0 0  0 0 0 0,
  FMT_INFO PXFMT_S16_UINT Uint16 Uint32 1 2 False False False False  0 (-1) (-1) (-1)  0 0 0 0  0 0 0 0,
  FMT_INFO PXFMT_S16_SINT Int16 Uint32 1 2 False False True False  0 (-1) (-1) (-1)  0 0 0 0  0 0 0 0,
  FMT_INFO PXFMT_S32_UINT Uint32 Uint32 1 4 False False False False  0 (-1) (-1) (-1)  0 0 0 0  0 0 0 0,
  FMT_INFO PXFMT_S32_SINT Int32 Uint32 1 4 False False True False  0 (-1) (-1) (-1)  0 0 0 0  0 0 0 0,
  FMT_INFO PXFMT_S32_FLOAT Float Uint32 1 4 False False False False  0 (-1) (-1) (-1)  0 0 0 0  0 0 0 0,
  FMT_INFO PXFMT_D24_UNORM_S8_UINT Uint32 Double 2 4 True False False False  0 1 (-1) (-1)  24 8 0 0  0 0 0 0,
  FMT_INFO PXFMT_D32_FLOAT_S8_UINT Float Double 2 8 True False False False  0 1 (-1) (-1)  0 8 0 0  0 0 0 0]"

text \<open>
  \<^verbatim>\<open>pxfmt_per_fmt_info<F>\<close>: the specialisation for \<open>F\<close>, if the file declares one.
  Modelled from the spec: \<^verbatim>\<open>pxfmt_case_statements.inl\<close>, which every run-time
  \<^verbatim>\<open>switch\<close> on a format includes, is not part of the sources; it is taken to hold one
  \<^verbatim>\<open>CASE_STATEMENT\<close> for each format of the table, so that a \<^verbatim>\<open>switch\<close> on a format reaches
  the template for exactly the formats where this lookup succeeds.
\<close>

definition pxfmt_per_fmt_info :: "pxfmt_sized_format \<Rightarrow> pxfmt_per_fmt_info option" where
  "pxfmt_per_fmt_info F = find (\<lambda>i. m_fmt i = F) fmt_info_table"

subsection \<open>Strides\<close>

text \<open>
  The template \<^verbatim>\<open>get_pxfmt_info<F>\<close>; its three reference parameters are the result.
\<close>

definition get_pxfmt_info_F :: "pxfmt_per_fmt_info \<Rightarrow> uint32 \<Rightarrow> uint32 \<times> uint32 \<times> bool" where
  "get_pxfmt_info_F info width =
     (let pixel_stride = m_bytes_per_pixel info;
          row_stride = ((pixel_stride * width) + 3) AND 0xFFFFFFFC
      in (pixel_stride, row_stride, m_needs_fp_intermediate info))"

text \<open>
  The run-time \<^verbatim>\<open>get_pxfmt_info\<close>. The reference parameters come in as \<open>outs\<close>
  (\<open>None\<close> while they are uninitialised, as the locals of the caller are); a format
  with no case, \<^verbatim>\<open>PXFMT_INVALID\<close> among them, leaves them as they were.
\<close>

definition get_pxfmt_info ::
  "uint32 \<Rightarrow> (uint32 \<times> uint32 \<times> bool) option \<Rightarrow> pxfmt_sized_format \<Rightarrow>
   (uint32 \<times> uint32 \<times> bool) option" where
  "get_pxfmt_info width outs fmt =
     (case pxfmt_per_fmt_info fmt of
        Some info \<Rightarrow> Some (get_pxfmt_info_F info width)
      | None \<Rightarrow> outs)"


section \<open>The arithmetic of C\<close>

subsection \<open>IEEE 754 binary32 and binary64\<close>

text \<open>
  The intermediate values of the normalized formats are \<^verbatim>\<open>double\<close>s, and what the decoder and
  the encoder compute with them depends on how a quotient and a product are rounded. A
  floating-point number is therefore its bit pattern, and an operation decodes its operands,
  computes the exact rational result and rounds it to the nearest representable number,
  ties to the even one, which is the default rounding mode of IEEE 754. Subnormal numbers,
  infinities, the sign of zero, and the sign and the payload of a NaN are modelled. Where
  IEEE 754 leaves a choice, the model is of the x86-64 instructions: a conversion or an
  operation with a NaN operand yields that NaN with its sign, its payload (the leading
  bits of it when the format gets narrower) and the quiet bit set; an invalid operation
  yields the quiet NaN with the sign bit set and an empty payload.
\<close>

datatype fpval = Finite bool rat | Infinity bool | NaN bool rat

text \<open>
  \<open>Finite s m\<close> is \<open>(-1)\<^sup>s \<sqdot> m\<close> with \<open>0 \<le> m\<close>; \<open>Infinity s\<close> has the sign \<open>s\<close>;
  \<open>NaN s q\<close> has the sign \<open>s\<close> and, in a format of \<open>n\<close> fraction bits, the fraction field
  \<open>q \<sqdot> 2\<^sup>n\<close>, with \<open>0 < q < 1\<close>.
\<close>

definition pow2 :: "int \<Rightarrow> rat" where
  "pow2 e = (if 0 \<le> e then 2 ^ nat e else 1 / 2 ^ nat (- e))"

text \<open>For \<open>0 < q\<close>, the \<open>e\<close> with \<open>2\<^sup>e \<le> q < 2\<^sup>e\<^sup>+\<^sup>1\<close>.\<close>

definition floor_log2 :: "rat \<Rightarrow> int" where
  "floor_log2 q =
     (let (a, b) = quotient_of q; e0 = bitlen a - bitlen b
      in if pow2 e0 \<le> q then e0 else e0 - 1)"

definition round_half_even :: "rat \<Rightarrow> int" where
  "round_half_even q =
     (let f = \<lfloor>q\<rfloor>; d = q - of_int f
      in if d < 1 / 2 then f else if 1 / 2 < d then f + 1 else if even f then f else f + 1)"

text \<open>
  A binary format with \<open>fbits\<close> fraction bits and \<open>ebits\<close> exponent bits; a bit pattern is
  the number it spells.
\<close>

definition fp_bias :: "nat \<Rightarrow> int" where
  "fp_bias ebits = 2 ^ (ebits - 1) - 1"

definition fp_decode :: "nat \<Rightarrow> nat \<Rightarrow> int \<Rightarrow> fpval" where
  "fp_decode fbits ebits n =
     (let frac = n mod 2 ^ fbits;
          be = (n div 2 ^ fbits) mod 2 ^ ebits;
          s = ((n div 2 ^ (fbits + ebits)) mod 2 = 1)
      in if be = 2 ^ ebits - 1 then
           (if frac = 0 then Infinity s else NaN s (of_int frac / 2 ^ fbits))
         else if be = 0 then Finite s (of_int frac * pow2 (1 - fp_bias ebits - int fbits))
         else Finite s (of_int (2 ^ fbits + frac) * pow2 (be - fp_bias ebits - int fbits)))"

text \<open>
  Rounding a magnitude \<open>0 < m\<close>: the significand is rounded at the exponent of \<open>m\<close>, or at
  the least exponent for a subnormal result; a carry out of the significand moves into the
  exponent field by itself, and what reaches the top exponent is infinity.
\<close>

definition fp_round_magnitude :: "nat \<Rightarrow> nat \<Rightarrow> rat \<Rightarrow> int" where
  "fp_round_magnitude fbits ebits m =
     (let ex = max (floor_log2 m) (1 - fp_bias ebits);
          M = round_half_even (m * pow2 (int fbits - ex));
          p = (ex + fp_bias ebits - 1) * 2 ^ fbits + M
      in min p ((2 ^ ebits - 1) * 2 ^ fbits))"

definition fp_encode :: "nat \<Rightarrow> nat \<Rightarrow> fpval \<Rightarrow> int" where
  "fp_encode fbits ebits v =
     (case v of
        NaN s q \<Rightarrow> (if s then 2 ^ (fbits + ebits) else 0) + (2 ^ ebits - 1) * 2 ^ fbits +
                     2 ^ (fbits - 1) + \<lfloor>q * 2 ^ fbits\<rfloor> mod 2 ^ (fbits - 1)
      | Infinity s \<Rightarrow> (if s then 2 ^ (fbits + ebits) else 0) + (2 ^ ebits - 1) * 2 ^ fbits
      | Finite s m \<Rightarrow> (if s then 2 ^ (fbits + ebits) else 0) +
                        (if m = 0 then 0 else fp_round_magnitude fbits ebits m))"

definition default_NaN :: fpval where
  "default_NaN = NaN True (1 / 2)"

fun fp_mul :: "fpval \<Rightarrow> fpval \<Rightarrow> fpval" where
  "fp_mul (NaN s q) _ = NaN s q"
| "fp_mul _ (NaN s q) = NaN s q"
| "fp_mul (Infinity s) (Infinity t) = Infinity (s \<noteq> t)"
| "fp_mul (Infinity s) (Finite t m) = (if m = 0 then default_NaN else Infinity (s \<noteq> t))"
| "fp_mul (Finite s m) (Infinity t) = (if m = 0 then default_NaN else Infinity (s \<noteq> t))"
| "fp_mul (Finite s m) (Finite t k) = Finite (s \<noteq> t) (m * k)"

fun fp_div :: "fpval \<Rightarrow> fpval \<Rightarrow> fpval" where
  "fp_div (NaN s q) _ = NaN s q"
| "fp_div _ (NaN s q) = NaN s q"
| "fp_div (Infinity s) (Infinity t) = default_NaN"
| "fp_div (Infinity s) (Finite t m) = Infinity (s \<noteq> t)"
| "fp_div (Finite s m) (Infinity t) = Finite (s \<noteq> t) 0"
| "fp_div (Finite s m) (Finite t k) =
     (if k = 0 then (if m = 0 then default_NaN else Infinity (s \<noteq> t))
      else Finite (s \<noteq> t) (m / k))"

text \<open>The comparison \<^verbatim>\<open><\<close>: false when an operand is a NaN; the two zeros are equal.\<close>

fun fp_less :: "fpval \<Rightarrow> fpval \<Rightarrow> bool" where
  "fp_less (NaN s q) _ = False"
| "fp_less _ (NaN s q) = False"
| "fp_less (Infinity s) (Infinity t) = (s \<and> \<not> t)"
| "fp_less (Infinity s) (Finite t m) = s"
| "fp_less (Finite s m) (Infinity t) = (\<not> t)"
| "fp_less (Finite s m) (Finite t k) = ((if s then - m else m) < (if t then - k else k))"

type_synonym double = "64 word"

definition double_val :: "double \<Rightarrow> fpval" where
  "double_val d = fp_decode 52 11 (uint d)"

definition double_of :: "fpval \<Rightarrow> double" where
  "double_of v = of_int (fp_encode 52 11 v)"

definition double_mul :: "double \<Rightarrow> double \<Rightarrow> double" where
  "double_mul a b = double_of (fp_mul (double_val a) (double_val b))"

definition double_div :: "double \<Rightarrow> double \<Rightarrow> double" where
  "double_div a b = double_of (fp_div (double_val a) (double_val b))"

text \<open>\<^verbatim>\<open>std::max<double>(a, b)\<close> is \<^verbatim>\<open>(a < b) ? b : a\<close>.\<close>

definition std_max :: "double \<Rightarrow> double \<Rightarrow> double" where
  "std_max a b = (if fp_less (double_val a) (double_val b) then b else a)"

subsection \<open>Values and conversions of the scalar types\<close>

fun is_float_type :: "ctype \<Rightarrow> bool" where
  "is_float_type Float = True"
| "is_float_type Double = True"
| "is_float_type _ = False"

fun is_signed_type :: "ctype \<Rightarrow> bool" where
  "is_signed_type Int8 = True"
| "is_signed_type Int16 = True"
| "is_signed_type Int32 = True"
| "is_signed_type _ = False"

text \<open>The value that a bit pattern has at a type; integers are two's complement.\<close>

definition c_int_value :: "ctype \<Rightarrow> 64 word \<Rightarrow> int" where
  "c_int_value ty w =
     (let n = uint w mod 2 ^ (8 * sizeof ty)
      in if is_signed_type ty \<and> 2 ^ (8 * sizeof ty - 1) \<le> n then n - 2 ^ (8 * sizeof ty) else n)"

definition c_value :: "ctype \<Rightarrow> 64 word \<Rightarrow> fpval" where
  "c_value ty w =
     (case ty of
        Float \<Rightarrow> fp_decode 23 8 (uint w mod 2 ^ 32)
      | Double \<Rightarrow> fp_decode 52 11 (uint w)
      | _ \<Rightarrow> (let i = c_int_value ty w in Finite (i < 0) (of_int \<bar>i\<bar>)))"

definition c_in_range :: "ctype \<Rightarrow> int \<Rightarrow> bool" where
  "c_in_range ty i =
     (if is_signed_type ty then - (2 ^ (8 * sizeof ty - 1)) \<le> i \<and> i < 2 ^ (8 * sizeof ty - 1)
      else 0 \<le> i \<and> i < 2 ^ (8 * sizeof ty))"

text \<open>
  A conversion of a floating-point value to an integer type truncates towards zero. When the
  truncated value is not a value of the target type (also for an infinity and a NaN), C++
  leaves the behaviour undefined; what the machine yields then is the parameter \<open>oor\<close> of
  the model, a function of the target type, the source type and the source bits, and every
  theorem below holds for every such function.
\<close>

type_synonym oor_conv = "ctype \<Rightarrow> ctype \<Rightarrow> 64 word \<Rightarrow> 64 word"

definition c_cast :: "oor_conv \<Rightarrow> ctype \<Rightarrow> ctype \<Rightarrow> 64 word \<Rightarrow> 64 word" where
  "c_cast oor to from w =
     (if to = from then w
      else case to of
        Double \<Rightarrow> of_int (fp_encode 52 11 (c_value from w))
      | Float \<Rightarrow> of_int (fp_encode 23 8 (c_value from w))
      | _ \<Rightarrow>
          (if is_float_type from then
             (case c_value from w of
                Finite s m \<Rightarrow>
                  (let t = (if s then - \<lfloor>m\<rfloor> else \<lfloor>m\<rfloor>)
                   in if c_in_range to t then of_int (t mod 2 ^ (8 * sizeof to))
                      else take_bit (8 * sizeof to) (oor to from w))
              | _ \<Rightarrow> take_bit (8 * sizeof to) (oor to from w))
           else of_int (c_int_value from w mod 2 ^ (8 * sizeof to))))"

text \<open>The bits of a \<^verbatim>\<open>uint32\<close> as a scalar value, and back.\<close>

definition of_uint32 :: "uint32 \<Rightarrow> 64 word" where
  "of_uint32 w = ucast w"

definition to_uint32 :: "oor_conv \<Rightarrow> ctype \<Rightarrow> 64 word \<Rightarrow> uint32" where
  "to_uint32 oor from w = ucast (c_cast oor Uint32 from w)"

definition uint32_to_double :: "uint32 \<Rightarrow> double" where
  "uint32_to_double w = double_of (Finite False (of_int (uint w)))"

definition minus_one :: double where
  "minus_one = double_of (Finite True 1)"

subsection \<open>Memory\<close>

text \<open>
  The pixel buffers are bytes at addresses; the source and the destination of a conversion
  live in one memory, so that they may overlap. A scalar is read and written in the byte
  order of the machine, which is taken to be little-endian.
\<close>

type_synonym memory = "nat \<Rightarrow> 8 word"

definition load :: "ctype \<Rightarrow> memory \<Rightarrow> nat \<Rightarrow> 64 word" where
  "load ty mem a = foldr (\<lambda>i acc. push_bit 8 acc OR ucast (mem (a + i))) [0..<sizeof ty] 0"

definition store :: "ctype \<Rightarrow> memory \<Rightarrow> nat \<Rightarrow> 64 word \<Rightarrow> memory" where
  "store ty mem a w = fold (\<lambda>i m. m(a + i := ucast (drop_bit (8 * i) w))) [0..<sizeof ty] mem"


section \<open>From a pixel to the intermediate values\<close>

text \<open>
  The intermediate buffer is \<^verbatim>\<open>double intermediate[4]\<close> or \<^verbatim>\<open>uint32 intermediate[4]\<close>: four
  slots, each the bit pattern of a value of \<^verbatim>\<open>m_intermediate_type\<close>. \<open>src[c]\<close> for a pointer
  to \<open>ty\<close> is \<open>elem ty mem src c\<close>.
\<close>

type_synonym intermediate = "64 word list"

definition elem :: "ctype \<Rightarrow> memory \<Rightarrow> nat \<Rightarrow> nat \<Rightarrow> 64 word" where
  "elem ty mem p c = load ty mem (p + c * sizeof ty)"

text \<open>\<^verbatim>\<open>uint32 index = m_index[c]\<close>: the \<^verbatim>\<open>int32\<close> of the table as a \<^verbatim>\<open>uint32\<close>.\<close>

definition index_of :: "pxfmt_per_fmt_info \<Rightarrow> nat \<Rightarrow> nat" where
  "index_of info c = unat (word_of_int (m_index info ! c) :: uint32)"

definition set_intermediate_to_defaults :: "oor_conv \<Rightarrow> pxfmt_per_fmt_info \<Rightarrow> intermediate" where
  "set_intermediate_to_defaults oor info =
     (let ity = m_intermediate_type info
      in [c_cast oor ity Int32 0, c_cast oor ity Int32 0, c_cast oor ity Int32 0,
          c_cast oor ity Int32 1])"

definition to_int_comp_packed ::
  "oor_conv \<Rightarrow> pxfmt_per_fmt_info \<Rightarrow> intermediate \<Rightarrow> memory \<Rightarrow> nat \<Rightarrow> nat \<Rightarrow> intermediate" where
  "to_int_comp_packed oor info dst mem src c =
     (let ity = m_intermediate_type info;
          raw = to_uint32 oor (m_formatted_type info) (load (m_formatted_type info) mem src);
          index = index_of info c;
          mask_c = m_mask info ! c;
          shift = m_shift info ! c
      in if m_is_normalized info then
           (let max_c = m_max info ! c;
                raw = drop_bit (unat shift) (raw AND mask_c);
                dst = dst[index := c_cast oor ity Double
                                     (double_div (uint32_to_double raw) (uint32_to_double max_c))]
            in if m_is_signed info then
                 dst[index := c_cast oor ity Double
                                (std_max (c_cast oor Double ity (dst ! index)) minus_one)]
               else dst)
         else dst[index := c_cast oor ity Uint32 (of_uint32 (drop_bit (unat shift) (raw AND mask_c)))])"

definition to_int_comp_norm_unpacked ::
  "oor_conv \<Rightarrow> pxfmt_per_fmt_info \<Rightarrow> intermediate \<Rightarrow> memory \<Rightarrow> nat \<Rightarrow> nat \<Rightarrow> intermediate" where
  "to_int_comp_norm_unpacked oor info dst mem src c =
     (let ity = m_intermediate_type info;
          raw = to_uint32 oor (m_formatted_type info) (elem (m_formatted_type info) mem src c);
          index = index_of info c;
          max_c = m_max info ! c;
          dst = dst[index := c_cast oor ity Double
                               (double_div (uint32_to_double raw) (uint32_to_double max_c))]
      in if m_is_signed info then
           dst[index := c_cast oor ity Double
                          (std_max (c_cast oor Double ity (dst ! index)) minus_one)]
         else dst)"

definition to_int_comp_copy ::
  "oor_conv \<Rightarrow> pxfmt_per_fmt_info \<Rightarrow> intermediate \<Rightarrow> memory \<Rightarrow> nat \<Rightarrow> nat \<Rightarrow> intermediate" where
  "to_int_comp_copy oor info dst mem src c =
     (let index = index_of info c
      in dst[index := c_cast oor (m_intermediate_type info) (m_formatted_type info)
                        (elem (m_formatted_type info) mem src c)])"

text \<open>
  The two routines for \<^verbatim>\<open>GL_DEPTH_STENCIL\<close> write the stencil through a \<^verbatim>\<open>uint32 *\<close> that points
  at slot 1 of the buffer of \<^verbatim>\<open>double\<close>s: the low four bytes of the slot are replaced and the
  high four stay. They run for their own two formats only, whose intermediate type is
  \<^verbatim>\<open>double\<close>, and are modelled for slots of eight bytes.
\<close>

definition put_uint32 :: "64 word \<Rightarrow> uint32 \<Rightarrow> 64 word" where
  "put_uint32 slot v = (slot AND NOT (mask 32)) OR ucast v"

definition get_uint32 :: "64 word \<Rightarrow> uint32" where
  "get_uint32 slot = ucast slot"

definition to_int_d24_unorm_s8_uint ::
  "oor_conv \<Rightarrow> pxfmt_per_fmt_info \<Rightarrow> intermediate \<Rightarrow> memory \<Rightarrow> nat \<Rightarrow> intermediate" where
  "to_int_d24_unorm_s8_uint oor info dst mem src =
     (let depth = to_uint32 oor (m_formatted_type info) (load (m_formatted_type info) mem src);
          dst = dst[0 := double_div
                           (uint32_to_double
                              (drop_bit (unat (m_shift info ! 0)) (depth AND m_mask info ! 0)))
                           (uint32_to_double (m_max info ! 0))];
          stencil = to_uint32 oor (m_formatted_type info) (load (m_formatted_type info) mem src)
      in dst[1 := put_uint32 (dst ! 1)
                    (drop_bit (unat (m_shift info ! 1)) (stencil AND m_mask info ! 1))])"

definition to_int_d32_float_s8_uint ::
  "oor_conv \<Rightarrow> pxfmt_per_fmt_info \<Rightarrow> intermediate \<Rightarrow> memory \<Rightarrow> nat \<Rightarrow> intermediate" where
  "to_int_d32_float_s8_uint oor info dst mem src =
     (let dst = to_int_comp_copy oor info dst mem src 0;
          pStencilSrc = ucast (load Uint32 mem (src + 1 * sizeof (m_formatted_type info)))
      in dst[1 := put_uint32 (dst ! 1)
                    (drop_bit (unat (m_shift info ! 1)) (pStencilSrc AND m_mask info ! 1))])"

text \<open>The template \<^verbatim>\<open>to_intermediate<F>\<close>; the buffer is the result.\<close>

definition to_intermediate_F ::
  "oor_conv \<Rightarrow> pxfmt_per_fmt_info \<Rightarrow> memory \<Rightarrow> nat \<Rightarrow> intermediate" where
  "to_intermediate_F oor info mem src =
     (let dst = set_intermediate_to_defaults oor info
      in if m_fmt info = PXFMT_D24_UNORM_S8_UINT then to_int_d24_unorm_s8_uint oor info dst mem src
         else if m_fmt info = PXFMT_D32_FLOAT_S8_UINT then
           to_int_d32_float_s8_uint oor info dst mem src
         else
           fold (\<lambda>c dst.
                   if m_index info ! c \<ge> 0 then
                     (if m_is_packed info then to_int_comp_packed oor info dst mem src c
                      else if m_is_normalized info then
                        to_int_comp_norm_unpacked oor info dst mem src c
                      else to_int_comp_copy oor info dst mem src c)
                   else dst)
                [0..<unat (m_num_components info)] dst)"

text \<open>
  The run-time \<^verbatim>\<open>to_intermediate\<close>: a format with no case leaves the buffer as it was.
\<close>

definition to_intermediate ::
  "oor_conv \<Rightarrow> intermediate \<Rightarrow> memory \<Rightarrow> nat \<Rightarrow> pxfmt_sized_format \<Rightarrow> intermediate" where
  "to_intermediate oor intermediate mem pSrc src_fmt =
     (case pxfmt_per_fmt_info src_fmt of
        Some info \<Rightarrow> to_intermediate_F oor info mem pSrc
      | None \<Rightarrow> intermediate)"

section \<open>From the intermediate values to a pixel\<close>

text \<open>
  \<^verbatim>\<open>src[i] * m_max[i]\<close> in the intermediate type: a product of \<^verbatim>\<open>double\<close>s, or of \<^verbatim>\<open>uint32\<close>s
  modulo \<open>2\<^sup>3\<^sup>2\<close>.
\<close>

definition times_max :: "ctype \<Rightarrow> 64 word \<Rightarrow> uint32 \<Rightarrow> 64 word" where
  "times_max ity v m =
     (if ity = Double then double_mul v (uint32_to_double m) else of_uint32 (ucast v * m))"

definition from_int_comp_packed ::
  "oor_conv \<Rightarrow> pxfmt_per_fmt_info \<Rightarrow> memory \<Rightarrow> nat \<Rightarrow> intermediate \<Rightarrow> memory" where
  "from_int_comp_packed oor info mem dst src =
     (let ity = m_intermediate_type info;
          red = (if m_is_normalized info then times_max ity (src ! 0) (m_max info ! 0) else src ! 0);
          green = (if m_is_normalized info then times_max ity (src ! 1) (m_max info ! 1) else src ! 1);
          blue = (if m_is_normalized info then times_max ity (src ! 2) (m_max info ! 2) else src ! 2);
          alpha = (if m_is_normalized info then times_max ity (src ! 3) (m_max info ! 3) else src ! 3)
      in store (m_formatted_type info) mem dst
           (c_cast oor (m_formatted_type info) Uint32
              (of_uint32
                 ((push_bit (unat (m_shift info ! 0)) (to_uint32 oor ity red) AND m_mask info ! 0) OR
                  (push_bit (unat (m_shift info ! 1)) (to_uint32 oor ity green) AND m_mask info ! 1) OR
                  (push_bit (unat (m_shift info ! 2)) (to_uint32 oor ity blue) AND m_mask info ! 2) OR
                  (push_bit (unat (m_shift info ! 3)) (to_uint32 oor ity alpha) AND m_mask info ! 3)))))"

text \<open>
  \<^verbatim>\<open>dst[c] = (Tint) ((double) src[index] * (double) max)\<close>: the product is converted to the
  type of the destination by the assignment. The unused \<^verbatim>\<open>raw\<close> is left out.
\<close>

definition from_int_comp_norm_unpacked ::
  "oor_conv \<Rightarrow> pxfmt_per_fmt_info \<Rightarrow> memory \<Rightarrow> nat \<Rightarrow> intermediate \<Rightarrow> nat \<Rightarrow> memory" where
  "from_int_comp_norm_unpacked oor info mem dst src c =
     (let ity = m_intermediate_type info;
          fty = m_formatted_type info;
          index = index_of info c;
          max_c = m_max info ! c
      in store fty mem (dst + c * sizeof fty)
           (c_cast oor fty ity
              (c_cast oor ity Double
                 (double_mul (c_cast oor Double ity (src ! index)) (uint32_to_double max_c)))))"

definition from_int_comp_copy ::
  "oor_conv \<Rightarrow> pxfmt_per_fmt_info \<Rightarrow> memory \<Rightarrow> nat \<Rightarrow> intermediate \<Rightarrow> nat \<Rightarrow> memory" where
  "from_int_comp_copy oor info mem dst src c =
     (let fty = m_formatted_type info;
          index = index_of info c
      in store fty mem (dst + c * sizeof fty)
           (c_cast oor fty (m_intermediate_type info) (src ! index)))"

definition from_int_d24_unorm_s8_uint ::
  "oor_conv \<Rightarrow> pxfmt_per_fmt_info \<Rightarrow> memory \<Rightarrow> nat \<Rightarrow> intermediate \<Rightarrow> memory" where
  "from_int_d24_unorm_s8_uint oor info mem dst src =
     (let depth_double = double_mul (src ! 0) (uint32_to_double (m_max info ! 0));
          depth_uint32 = to_uint32 oor Double depth_double;
          depth_uint32 = push_bit (unat (m_shift info ! 0)) depth_uint32 AND m_mask info ! 0;
          stencil = push_bit (unat (m_shift info ! 1)) (get_uint32 (src ! 1)) AND m_mask info ! 1
      in store (m_formatted_type info) mem dst
           (c_cast oor (m_formatted_type info) Uint32 (of_uint32 (depth_uint32 OR stencil))))"

definition from_int_d32_float_s8_uint ::
  "oor_conv \<Rightarrow> pxfmt_per_fmt_info \<Rightarrow> memory \<Rightarrow> nat \<Rightarrow> intermediate \<Rightarrow> memory" where
  "from_int_d32_float_s8_uint oor info mem dst src =
     (let mem = from_int_comp_copy oor info mem dst src 0
      in store Uint32 mem (dst + 1 * sizeof (m_formatted_type info))
           (of_uint32 (push_bit (unat (m_shift info ! 1)) (get_uint32 (src ! 1)) AND m_mask info ! 1)))"

text \<open>The template \<^verbatim>\<open>from_intermediate<F>\<close>; the memory with the pixel written is the result.\<close>

definition from_intermediate_F ::
  "oor_conv \<Rightarrow> pxfmt_per_fmt_info \<Rightarrow> memory \<Rightarrow> nat \<Rightarrow> intermediate \<Rightarrow> memory" where
  "from_intermediate_F oor info mem dst src =
     (if m_fmt info = PXFMT_D24_UNORM_S8_UINT then from_int_d24_unorm_s8_uint oor info mem dst src
      else if m_fmt info = PXFMT_D32_FLOAT_S8_UINT then
        from_int_d32_float_s8_uint oor info mem dst src
      else if m_is_packed info then from_int_comp_packed oor info mem dst src
      else
        fold (\<lambda>c mem.
                if m_index info ! c \<ge> 0 then
                  (if m_is_normalized info then from_int_comp_norm_unpacked oor info mem dst src c
                   else from_int_comp_copy oor info mem dst src c)
                else mem)
             [0..<unat (m_num_components info)] mem)"

definition from_intermediate ::
  "oor_conv \<Rightarrow> memory \<Rightarrow> nat \<Rightarrow> intermediate \<Rightarrow> pxfmt_sized_format \<Rightarrow> memory" where
  "from_intermediate oor mem pDst intermediate dst_fmt =
     (case pxfmt_per_fmt_info dst_fmt of
        Some info \<Rightarrow> from_intermediate_F oor info mem pDst intermediate
      | None \<Rightarrow> mem)"

section \<open>\<^verbatim>\<open>validate_format_type_combo\<close>\<close>

text \<open>
  \<^verbatim>\<open>GLenum\<close> is \<^verbatim>\<open>unsigned int\<close>. The constants are those of the OpenGL headers \<^verbatim>\<open>GL/gl.h\<close> and
  \<^verbatim>\<open>GL/glext.h\<close>, which the file includes.
\<close>

type_synonym GLenum = "32 word"

named_theorems gl_enum

definition GL_BYTE :: GLenum where [gl_enum]: "GL_BYTE = 0x1400"
definition GL_UNSIGNED_BYTE :: GLenum where [gl_enum]: "GL_UNSIGNED_BYTE = 0x1401"
definition GL_SHORT :: GLenum where [gl_enum]: "GL_SHORT = 0x1402"
definition GL_UNSIGNED_SHORT :: GLenum where [gl_enum]: "GL_UNSIGNED_SHORT = 0x1403"
definition GL_INT :: GLenum where [gl_enum]: "GL_INT = 0x1404"
definition GL_UNSIGNED_INT :: GLenum where [gl_enum]: "GL_UNSIGNED_INT = 0x1405"
definition GL_FLOAT :: GLenum where [gl_enum]: "GL_FLOAT = 0x1406"
definition GL_STENCIL_INDEX :: GLenum where [gl_enum]: "GL_STENCIL_INDEX = 0x1901"
definition GL_DEPTH_COMPONENT :: GLenum where [gl_enum]: "GL_DEPTH_COMPONENT = 0x1902"
definition GL_RED :: GLenum where [gl_enum]: "GL_RED = 0x1903"
definition GL_GREEN :: GLenum where [gl_enum]: "GL_GREEN = 0x1904"
definition GL_BLUE :: GLenum where [gl_enum]: "GL_BLUE = 0x1905"
definition GL_ALPHA :: GLenum where [gl_enum]: "GL_ALPHA = 0x1906"
definition GL_RGB :: GLenum where [gl_enum]: "GL_RGB = 0x1907"
definition GL_RGBA :: GLenum where [gl_enum]: "GL_RGBA = 0x1908"
definition GL_UNSIGNED_BYTE_3_3_2 :: GLenum where [gl_enum]: "GL_UNSIGNED_BYTE_3_3_2 = 0x8032"
definition GL_UNSIGNED_SHORT_4_4_4_4 :: GLenum where [gl_enum]: "GL_UNSIGNED_SHORT_4_4_4_4 = 0x8033"
definition GL_UNSIGNED_SHORT_5_5_5_1 :: GLenum where [gl_enum]: "GL_UNSIGNED_SHORT_5_5_5_1 = 0x8034"
definition GL_UNSIGNED_INT_8_8_8_8 :: GLenum where [gl_enum]: "GL_UNSIGNED_INT_8_8_8_8 = 0x8035"
definition GL_UNSIGNED_INT_10_10_10_2 :: GLenum where [gl_enum]: "GL_UNSIGNED_INT_10_10_10_2 = 0x8036"
definition GL_BGRA :: GLenum where [gl_enum]: "GL_BGRA = 0x80E1"
definition GL_RG :: GLenum where [gl_enum]: "GL_RG = 0x8227"
definition GL_RG_INTEGER :: GLenum where [gl_enum]: "GL_RG_INTEGER = 0x8228"
definition GL_UNSIGNED_BYTE_2_3_3_REV :: GLenum where [gl_enum]: "GL_UNSIGNED_BYTE_2_3_3_REV = 0x8362"
definition GL_UNSIGNED_SHORT_5_6_5 :: GLenum where [gl_enum]: "GL_UNSIGNED_SHORT_5_6_5 = 0x8363"
definition GL_UNSIGNED_SHORT_5_6_5_REV :: GLenum where [gl_enum]: "GL_UNSIGNED_SHORT_5_6_5_REV = 0x8364"
definition GL_UNSIGNED_SHORT_4_4_4_4_REV :: GLenum where [gl_enum]: "GL_UNSIGNED_SHORT_4_4_4_4_REV = 0x8365"
definition GL_UNSIGNED_SHORT_1_5_5_5_REV :: GLenum where [gl_enum]: "GL_UNSIGNED_SHORT_1_5_5_5_REV = 0x8366"
definition GL_UNSIGNED_INT_8_8_8_8_REV :: GLenum where [gl_enum]: "GL_UNSIGNED_INT_8_8_8_8_REV = 0x8367"
definition GL_UNSIGNED_INT_2_10_10_10_REV :: GLenum where [gl_enum]: "GL_UNSIGNED_INT_2_10_10_10_REV = 0x8368"
definition GL_DEPTH_STENCIL :: GLenum where [gl_enum]: "GL_DEPTH_STENCIL = 0x84F9"
definition GL_UNSIGNED_INT_24_8 :: GLenum where [gl_enum]: "GL_UNSIGNED_INT_24_8 = 0x84FA"
definition GL_RED_INTEGER :: GLenum where [gl_enum]: "GL_RED_INTEGER = 0x8D94"
definition GL_GREEN_INTEGER :: GLenum where [gl_enum]: "GL_GREEN_INTEGER = 0x8D95"
definition GL_BLUE_INTEGER :: GLenum where [gl_enum]: "GL_BLUE_INTEGER = 0x8D96"
definition GL_ALPHA_INTEGER :: GLenum where [gl_enum]: "GL_ALPHA_INTEGER = 0x8D97"
definition GL_RGB_INTEGER :: GLenum where [gl_enum]: "GL_RGB_INTEGER = 0x8D98"
definition GL_RGBA_INTEGER :: GLenum where [gl_enum]: "GL_RGBA_INTEGER = 0x8D99"
definition GL_BGRA_INTEGER :: GLenum where [gl_enum]: "GL_BGRA_INTEGER = 0x8D9B"
definition GL_FLOAT_32_UNSIGNED_INT_24_8_REV :: GLenum where [gl_enum]: "GL_FLOAT_32_UNSIGNED_INT_24_8_REV = 0x8DAD"

text \<open>
  The inner \<^verbatim>\<open>switch (type)\<close> of each \<^verbatim>\<open>case\<close> of the outer \<^verbatim>\<open>switch (format)\<close>: the case labels
  with the format each returns, in the order of the file. A type with no label reaches
  \<^verbatim>\<open>default: break;\<close>.
\<close>

definition switch_GL_RED :: "(GLenum \<times> pxfmt_sized_format) list" where
  "switch_GL_RED =
     [(GL_UNSIGNED_BYTE, PXFMT_R8_UNORM),
      (GL_BYTE, PXFMT_R8_SNORM),
      (GL_UNSIGNED_SHORT, PXFMT_R16_UNORM),
      (GL_SHORT, PXFMT_R16_SNORM),
      (GL_UNSIGNED_INT, PXFMT_R32_UNORM),
      (GL_INT, PXFMT_R32_SNORM),
      (GL_FLOAT, PXFMT_R32_FLOAT)]"

definition switch_GL_GREEN :: "(GLenum \<times> pxfmt_sized_format) list" where
  "switch_GL_GREEN =
     [(GL_UNSIGNED_BYTE, PXFMT_G8_UNORM),
      (GL_BYTE, PXFMT_G8_SNORM),
      (GL_UNSIGNED_SHORT, PXFMT_G16_UNORM),
      (GL_SHORT, PXFMT_G16_SNORM),
      (GL_UNSIGNED_INT, PXFMT_G32_UNORM),
      (GL_INT, PXFMT_G32_SNORM),
      (GL_FLOAT, PXFMT_G32_FLOAT)]"

definition switch_GL_BLUE :: "(GLenum \<times> pxfmt_sized_format) list" where
  "switch_GL_BLUE =
     [(GL_UNSIGNED_BYTE, PXFMT_B8_UNORM),
      (GL_BYTE, PXFMT_B8_SNORM),
      (GL_UNSIGNED_SHORT, PXFMT_B16_UNORM),
      (GL_SHORT, PXFMT_B16_SNORM),
      (GL_UNSIGNED_INT, PXFMT_B32_UNORM),
      (GL_INT, PXFMT_B32_SNORM),
      (GL_FLOAT, PXFMT_B32_FLOAT)]"

definition switch_GL_ALPHA :: "(GLenum \<times> pxfmt_sized_format) list" where
  "switch_GL_ALPHA =
     [(GL_UNSIGNED_BYTE, PXFMT_A8_UNORM),
      (GL_BYTE, PXFMT_A8_SNORM),
      (GL_UNSIGNED_SHORT, PXFMT_A16_UNORM),
      (GL_SHORT, PXFMT_A16_SNORM),
      (GL_UNSIGNED_INT, PXFMT_A32_UNORM),
      (GL_INT, PXFMT_A32_SNORM),
      (GL_FLOAT, PXFMT_A32_FLOAT)]"

definition switch_GL_RG :: "(GLenum \<times> pxfmt_sized_format) list" where
  "switch_GL_RG =
     [(GL_UNSIGNED_BYTE, PXFMT_RG8_UNORM),
      (GL_BYTE, PXFMT_RG8_SNORM),
      (GL_UNSIGNED_SHORT, PXFMT_RG16_UNORM),
      (GL_SHORT, PXFMT_RG16_SNORM),
      (GL_UNSIGNED_INT, PXFMT_RG32_UNORM),
      (GL_INT, PXFMT_RG32_SNORM),
      (GL_FLOAT, PXFMT_RG32_FLOAT)]"

definition switch_GL_RGB :: "(GLenum \<times> pxfmt_sized_format) list" where
  "switch_GL_RGB =
     [(GL_UNSIGNED_BYTE, PXFMT_RGB8_UNORM),
      (GL_BYTE, PXFMT_RGB8_SNORM),
      (GL_UNSIGNED_SHORT, PXFMT_RGB16_UNORM),
      (GL_SHORT, PXFMT_RGB16_SNORM),
      (GL_UNSIGNED_INT, PXFMT_RGB32_UNORM),
      (GL_INT, PXFMT_RGB32_SNORM),
      (GL_FLOAT, PXFMT_RGB32_FLOAT),
      (GL_UNSIGNED_BYTE_3_3_2, PXFMT_RGB332_UNORM),
      (GL_UNSIGNED_BYTE_2_3_3_REV, PXFMT_RGB233_UNORM),
      (GL_UNSIGNED_SHORT_5_6_5, PXFMT_RGB565_UNORM),
      (GL_UNSIGNED_SHORT_5_6_5_REV, PXFMT_RGB565REV_UNORM)]"

definition switch_GL_RGBA :: "(GLenum \<times> pxfmt_sized_format) list" where
  "switch_GL_RGBA =
     [(GL_UNSIGNED_BYTE, PXFMT_RGBA8_UNORM),
      (GL_BYTE, PXFMT_RGBA8_SNORM),
      (GL_UNSIGNED_SHORT, PXFMT_RGBA16_UNORM),
      (GL_SHORT, PXFMT_RGBA16_SNORM),
      (GL_UNSIGNED_INT, PXFMT_RGBA32_UNORM),
      (GL_INT, PXFMT_RGBA32_SNORM),
      (GL_FLOAT, PXFMT_RGBA32_FLOAT),
      (GL_UNSIGNED_SHORT_4_4_4_4, PXFMT_RGBA4_UNORM),
      (GL_UNSIGNED_SHORT_4_4_4_4_REV, PXFMT_RGBA4REV_UNORM),
      (GL_UNSIGNED_SHORT_5_5_5_1, PXFMT_RGB5A1_UNORM),
      (GL_UNSIGNED_SHORT_1_5_5_5_REV, PXFMT_A1RGB5_UNORM),
      (GL_UNSIGNED_INT_8_8_8_8, PXFMT_RGBA8_UNORM),
      (GL_UNSIGNED_INT_8_8_8_8_REV, PXFMT_RGBA8REV_UNORM),
      (GL_UNSIGNED_INT_10_10_10_2, PXFMT_RGB10A2_UNORM),
      (GL_UNSIGNED_INT_2_10_10_10_REV, PXFMT_A2RGB10_UNORM)]"

definition switch_GL_BGRA :: "(GLenum \<times> pxfmt_sized_format) list" where
  "switch_GL_BGRA =
     [(GL_UNSIGNED_BYTE, PXFMT_BGRA8_UNORM),
      (GL_BYTE, PXFMT_BGRA8_SNORM),
      (GL_UNSIGNED_SHORT, PXFMT_BGRA16_UNORM),
      (GL_SHORT, PXFMT_BGRA16_SNORM),
      (GL_UNSIGNED_INT, PXFMT_BGRA32_UNORM),
      (GL_INT, PXFMT_BGRA32_SNORM),
      (GL_FLOAT, PXFMT_BGRA32_FLOAT),
      (GL_UNSIGNED_SHORT_4_4_4_4, PXFMT_BGRA4_UNORM),
      (GL_UNSIGNED_SHORT_4_4_4_4_REV, PXFMT_BGRA4REV_UNORM),
      (GL_UNSIGNED_SHORT_5_5_5_1, PXFMT_BGR5A1_UNORM),
      (GL_UNSIGNED_SHORT_1_5_5_5_REV, PXFMT_A1BGR5_UNORM),
      (GL_UNSIGNED_INT_8_8_8_8, PXFMT_BGRA8_UNORM),
      (GL_UNSIGNED_INT_8_8_8_8_REV, PXFMT_BGRA8REV_UNORM),
      (GL_UNSIGNED_INT_10_10_10_2, PXFMT_BGR10A2_UNORM),
      (GL_UNSIGNED_INT_2_10_10_10_REV, PXFMT_A2BGR10_UNORM)]"

definition switch_GL_RED_INTEGER :: "(GLenum \<times> pxfmt_sized_format) list" where
  "switch_GL_RED_INTEGER =
     [(GL_UNSIGNED_BYTE, PXFMT_R8_UINT),
      (GL_BYTE, PXFMT_R8_SINT),
      (GL_UNSIGNED_SHORT, PXFMT_R16_UINT),
      (GL_SHORT, PXFMT_R16_SINT),
      (GL_UNSIGNED_INT, PXFMT_R32_UINT),
      (GL_INT, PXFMT_R32_SINT)]"

definition switch_GL_GREEN_INTEGER :: "(GLenum \<times> pxfmt_sized_format) list" where
  "switch_GL_GREEN_INTEGER =
     [(GL_UNSIGNED_BYTE, PXFMT_G8_UINT),
      (GL_BYTE, PXFMT_G8_SINT),
      (GL_UNSIGNED_SHORT, PXFMT_G16_UINT),
      (GL_SHORT, PXFMT_G16_SINT),
      (GL_UNSIGNED_INT, PXFMT_G32_UINT),
      (GL_INT, PXFMT_G32_SINT)]"

definition switch_GL_BLUE_INTEGER :: "(GLenum \<times> pxfmt_sized_format) list" where
  "switch_GL_BLUE_INTEGER =
     [(GL_UNSIGNED_BYTE, PXFMT_B8_UINT),
      (GL_BYTE, PXFMT_B8_SINT),
      (GL_UNSIGNED_SHORT, PXFMT_B16_UINT),
      (GL_SHORT, PXFMT_B16_SINT),
      (GL_UNSIGNED_INT, PXFMT_B32_UINT),
      (GL_INT, PXFMT_B32_SINT)]"

definition switch_GL_ALPHA_INTEGER :: "(GLenum \<times> pxfmt_sized_format) list" where
  "switch_GL_ALPHA_INTEGER =
     [(GL_UNSIGNED_BYTE, PXFMT_A8_UINT),
      (GL_BYTE, PXFMT_A8_SINT),
      (GL_UNSIGNED_SHORT, PXFMT_A16_UINT),
      (GL_SHORT, PXFMT_A16_SINT),
      (GL_UNSIGNED_INT, PXFMT_A32_UINT),
      (GL_INT, PXFMT_A32_SINT)]"

definition switch_GL_RG_INTEGER :: "(GLenum \<times> pxfmt_sized_format) list" where
  "switch_GL_RG_INTEGER =
     [(GL_UNSIGNED_BYTE, PXFMT_RG8_UINT),
      (GL_BYTE, PXFMT_RG8_SINT),
      (GL_UNSIGNED_SHORT, PXFMT_RG16_UINT),
      (GL_SHORT, PXFMT_RG16_SINT),
      (GL_UNSIGNED_INT, PXFMT_RG32_UINT),
      (GL_INT, PXFMT_RG32_SINT)]"

definition switch_GL_RGB_INTEGER :: "(GLenum \<times> pxfmt_sized_format) list" where
  "switch_GL_RGB_INTEGER =
     [(GL_UNSIGNED_BYTE, PXFMT_RGB8_UINT),
      (GL_BYTE, PXFMT_RGB8_SINT),
      (GL_UNSIGNED_SHORT, PXFMT_RGB16_UINT),
      (GL_SHORT, PXFMT_RGB16_SINT),
      (GL_UNSIGNED_INT, PXFMT_RGB32_UINT),
      (GL_INT, PXFMT_RGB32_SINT),
      (GL_UNSIGNED_BYTE_3_3_2, PXFMT_RGB332_UINT),
      (GL_UNSIGNED_BYTE_2_3_3_REV, PXFMT_RGB233_UINT),
      (GL_UNSIGNED_SHORT_5_6_5, PXFMT_RGB565_UINT),
      (GL_UNSIGNED_SHORT_5_6_5_REV, PXFMT_RGB565REV_UINT)]"

definition switch_GL_RGBA_INTEGER :: "(GLenum \<times> pxfmt_sized_format) list" where
  "switch_GL_RGBA_INTEGER =
     [(GL_UNSIGNED_BYTE, PXFMT_RGBA8_UINT),
      (GL_BYTE, PXFMT_RGBA8_SINT),
      (GL_UNSIGNED_SHORT, PXFMT_RGBA16_UINT),
      (GL_SHORT, PXFMT_RGBA16_SINT),
      (GL_UNSIGNED_INT, PXFMT_RGBA32_UINT),
      (GL_INT, PXFMT_RGBA32_SINT),
      (GL_UNSIGNED_SHORT_4_4_4_4, PXFMT_RGBA4_UINT),
      (GL_UNSIGNED_SHORT_4_4_4_4_REV, PXFMT_RGBA4REV_UINT),
      (GL_UNSIGNED_SHORT_5_5_5_1, PXFMT_RGB5A1_UINT),
      (GL_UNSIGNED_SHORT_1_5_5_5_REV, PXFMT_A1RGB5_UINT),
      (GL_UNSIGNED_INT_8_8_8_8, PXFMT_RGBA8_UINT),
      (GL_UNSIGNED_INT_8_8_8_8_REV, PXFMT_RGBA8REV_UINT),
      (GL_UNSIGNED_INT_10_10_10_2, PXFMT_RGB10A2_UINT),
      (GL_UNSIGNED_INT_2_10_10_10_REV, PXFMT_A2RGB10_UINT)]"

definition switch_GL_BGRA_INTEGER :: "(GLenum \<times> pxfmt_sized_format) list" where
  "switch_GL_BGRA_INTEGER =
     [(GL_UNSIGNED_BYTE, PXFMT_BGRA8_UINT),
      (GL_BYTE, PXFMT_BGRA8_SINT),
      (GL_UNSIGNED_SHORT, PXFMT_BGRA16_UINT),
      (GL_SHORT, PXFMT_BGRA16_SINT),
      (GL_UNSIGNED_INT, PXFMT_BGRA32_UINT),
      (GL_INT, PXFMT_BGRA32_SINT),
      (GL_UNSIGNED_SHORT_4_4_4_4, PXFMT_BGRA4_UINT),
      (GL_UNSIGNED_SHORT_4_4_4_4_REV, PXFMT_BGRA4REV_UINT),
      (GL_UNSIGNED_SHORT_5_5_5_1, PXFMT_BGR5A1_UINT),
      (GL_UNSIGNED_SHORT_1_5_5_5_REV, PXFMT_A1BGR5_UINT),
      (GL_UNSIGNED_INT_8_8_8_8, PXFMT_BGRA8_UINT),
      (GL_UNSIGNED_INT_8_8_8_8_REV, PXFMT_BGRA8REV_UINT),
      (GL_UNSIGNED_INT_10_10_10_2, PXFMT_BGR10A2_UINT),
      (GL_UNSIGNED_INT_2_10_10_10_REV, PXFMT_A2BGR10_UINT)]"

definition switch_GL_DEPTH_COMPONENT :: "(GLenum \<times> pxfmt_sized_format) list" where
  "switch_GL_DEPTH_COMPONENT =
     [(GL_UNSIGNED_BYTE, PXFMT_D8_UNORM),
      (GL_BYTE, PXFMT_D8_SNORM),
      (GL_UNSIGNED_SHORT, PXFMT_D16_UNORM),
      (GL_SHORT, PXFMT_D16_SNORM),
      (GL_UNSIGNED_INT, PXFMT_D32_UNORM),
      (GL_INT, PXFMT_D32_SNORM),
      (GL_FLOAT, PXFMT_D32_FLOAT)]"

definition switch_GL_STENCIL_INDEX :: "(GLenum \<times> pxfmt_sized_format) list" where
  "switch_GL_STENCIL_INDEX =
     [(GL_UNSIGNED_BYTE, PXFMT_S8_UINT),
      (GL_BYTE, PXFMT_S8_SINT),
      (GL_UNSIGNED_SHORT, PXFMT_S16_UINT),
      (GL_SHORT, PXFMT_S16_SINT),
      (GL_UNSIGNED_INT, PXFMT_S32_UINT),
      (GL_INT, PXFMT_S32_SINT),
      (GL_FLOAT, PXFMT_S32_FLOAT)]"

definition switch_GL_DEPTH_STENCIL :: "(GLenum \<times> pxfmt_sized_format) list" where
  "switch_GL_DEPTH_STENCIL =
     [(GL_UNSIGNED_INT_24_8, PXFMT_D24_UNORM_S8_UINT),
      (GL_FLOAT_32_UNSIGNED_INT_24_8_REV, PXFMT_D32_FLOAT_S8_UINT)]"

text \<open>
  The outer \<^verbatim>\<open>switch\<close>. Every case ends in \<^verbatim>\<open>break\<close>, which leads to the final
  \<^verbatim>\<open>return PXFMT_INVALID\<close>, but for \<^verbatim>\<open>GL_RGBA_INTEGER\<close>: no \<^verbatim>\<open>break\<close> follows its inner
  \<^verbatim>\<open>switch\<close>, and control falls through into the case of \<^verbatim>\<open>GL_BGRA_INTEGER\<close>.
\<close>

definition validate_format_type_combo :: "GLenum \<Rightarrow> GLenum \<Rightarrow> pxfmt_sized_format" where
  "validate_format_type_combo format type =
     (
      if format = GL_RED then
        (case map_of switch_GL_RED type of Some F \<Rightarrow> F | None \<Rightarrow> PXFMT_INVALID)
      else if format = GL_GREEN then
        (case map_of switch_GL_GREEN type of Some F \<Rightarrow> F | None \<Rightarrow> PXFMT_INVALID)
      else if format = GL_BLUE then
        (case map_of switch_GL_BLUE type of Some F \<Rightarrow> F | None \<Rightarrow> PXFMT_INVALID)
      else if format = GL_ALPHA then
        (case map_of switch_GL_ALPHA type of Some F \<Rightarrow> F | None \<Rightarrow> PXFMT_INVALID)
      else if format = GL_RG then
        (case map_of switch_GL_RG type of Some F \<Rightarrow> F | None \<Rightarrow> PXFMT_INVALID)
      else if format = GL_RGB then
        (case map_of switch_GL_RGB type of Some F \<Rightarrow> F | None \<Rightarrow> PXFMT_INVALID)
      else if format = GL_RGBA then
        (case map_of switch_GL_RGBA type of Some F \<Rightarrow> F | None \<Rightarrow> PXFMT_INVALID)
      else if format = GL_BGRA then
        (case map_of switch_GL_BGRA type of Some F \<Rightarrow> F | None \<Rightarrow> PXFMT_INVALID)
      else if format = GL_RED_INTEGER then
        (case map_of switch_GL_RED_INTEGER type of Some F \<Rightarrow> F | None \<Rightarrow> PXFMT_INVALID)
      else if format = GL_GREEN_INTEGER then
        (case map_of switch_GL_GREEN_INTEGER type of Some F \<Rightarrow> F | None \<Rightarrow> PXFMT_INVALID)
      else if format = GL_BLUE_INTEGER then
        (case map_of switch_GL_BLUE_INTEGER type of Some F \<Rightarrow> F | None \<Rightarrow> PXFMT_INVALID)
      else if format = GL_ALPHA_INTEGER then
        (case map_of switch_GL_ALPHA_INTEGER type of Some F \<Rightarrow> F | None \<Rightarrow> PXFMT_INVALID)
      else if format = GL_RG_INTEGER then
        (case map_of switch_GL_RG_INTEGER type of Some F \<Rightarrow> F | None \<Rightarrow> PXFMT_INVALID)
      else if format = GL_RGB_INTEGER then
        (case map_of switch_GL_RGB_INTEGER type of Some F \<Rightarrow> F | None \<Rightarrow> PXFMT_INVALID)
      else if format = GL_RGBA_INTEGER then
        (case map_of switch_GL_RGBA_INTEGER type of Some F \<Rightarrow> F
         | None \<Rightarrow> (case map_of switch_GL_BGRA_INTEGER type of Some F \<Rightarrow> F | None \<Rightarrow> PXFMT_INVALID))
      else if format = GL_BGRA_INTEGER then
        (case map_of switch_GL_BGRA_INTEGER type of Some F \<Rightarrow> F | None \<Rightarrow> PXFMT_INVALID)
      else if format = GL_DEPTH_COMPONENT then
        (case map_of switch_GL_DEPTH_COMPONENT type of Some F \<Rightarrow> F | None \<Rightarrow> PXFMT_INVALID)
      else if format = GL_STENCIL_INDEX then
        (case map_of switch_GL_STENCIL_INDEX type of Some F \<Rightarrow> F | None \<Rightarrow> PXFMT_INVALID)
      else if format = GL_DEPTH_STENCIL then
        (case map_of switch_GL_DEPTH_STENCIL type of Some F \<Rightarrow> F | None \<Rightarrow> PXFMT_INVALID)
      else PXFMT_INVALID)"

section \<open>\<^verbatim>\<open>pxfmt_convert_pixels\<close>\<close>

text \<open>
  The function returns nothing and checks its preconditions with \<^verbatim>\<open>assert\<close>. The model is
  of a build in which the assertions are compiled in (the build with \<^verbatim>\<open>NDEBUG\<close> follows
  below): a failed assertion ends the run, and the result names the assertion and gives the
  memory as it is at that moment. The locals
  that \<^verbatim>\<open>get_pxfmt_info\<close> is to set are uninitialised before the call; reading them when a
  format had no case is \<open>Indeterminate_value\<close>.
\<close>

datatype failure =
    Indeterminate_value
  | Assert_src_pixel_stride
  | Assert_src_row_stride
  | Assert_dst_pixel_stride
  | Assert_dst_row_stride
  | Assert_same_intermediate

text \<open>
  The loop \<^verbatim>\<open>for (int x = 0 ; x < height ; x++)\<close> over the pixels of a row, from the value
  \<open>x\<close> of its counter on. The state is the two pixel pointers, the intermediate buffer and
  the memory.
\<close>

function pixel_loop ::
  "oor_conv \<Rightarrow> pxfmt_sized_format \<Rightarrow> pxfmt_sized_format \<Rightarrow> uint32 \<Rightarrow> uint32 \<Rightarrow> int \<Rightarrow> int \<Rightarrow>
   nat \<times> nat \<times> intermediate \<times> memory \<Rightarrow> nat \<times> nat \<times> intermediate \<times> memory" where
  "pixel_loop oor src_fmt dst_fmt src_pixel_stride dst_pixel_stride height x
     (src, dst, intermediate, mem) =
     (if x < height then
        (let intermediate = to_intermediate oor intermediate mem src src_fmt;
             mem = from_intermediate oor mem dst intermediate dst_fmt
         in pixel_loop oor src_fmt dst_fmt src_pixel_stride dst_pixel_stride height (x + 1)
              (src + unat src_pixel_stride, dst + unat dst_pixel_stride, intermediate, mem))
      else (src, dst, intermediate, mem))"
  by pat_completeness auto
termination
  by (relation "measure (\<lambda>(oor, sf, df, sps, dps, height, x, s). nat (height - x))") auto

declare pixel_loop.simps [simp del]

text \<open>
  The loop \<^verbatim>\<open>for (int y = 0 ; y < height ; y++)\<close> over the rows. The state is the two row
  pointers, the intermediate buffer and the memory; each row starts with the pixel
  pointers at the row pointers.
\<close>

function row_loop ::
  "oor_conv \<Rightarrow> pxfmt_sized_format \<Rightarrow> pxfmt_sized_format \<Rightarrow> uint32 \<Rightarrow> uint32 \<Rightarrow> uint32 \<Rightarrow> uint32 \<Rightarrow>
   int \<Rightarrow> int \<Rightarrow> nat \<times> nat \<times> intermediate \<times> memory \<Rightarrow> nat \<times> nat \<times> intermediate \<times> memory" where
  "row_loop oor src_fmt dst_fmt src_pixel_stride dst_pixel_stride src_row_stride dst_row_stride
     height y (src_row, dst_row, intermediate, mem) =
     (if y < height then
        (case pixel_loop oor src_fmt dst_fmt src_pixel_stride dst_pixel_stride height 0
                (src_row, dst_row, intermediate, mem) of
           (src, dst, intermediate, mem) \<Rightarrow>
             row_loop oor src_fmt dst_fmt src_pixel_stride dst_pixel_stride
               src_row_stride dst_row_stride height (y + 1)
               (src_row + unat src_row_stride, dst_row + unat dst_row_stride, intermediate, mem))
      else (src_row, dst_row, intermediate, mem))"
  by pat_completeness auto
termination
  by (relation "measure (\<lambda>(oor, sf, df, sps, dps, srs, drs, height, y, s). nat (height - y))") auto

declare row_loop.simps [simp del]

text \<open>
  \<open>width\<close> and \<open>height\<close> are the \<^verbatim>\<open>int\<close>s of the caller; \<open>width\<close> becomes a \<^verbatim>\<open>uint32\<close> where it
  is passed to \<^verbatim>\<open>get_pxfmt_info\<close>. \<open>garbage\<close> is what the uninitialised intermediate buffer
  holds. The two branches on \<^verbatim>\<open>src_needs_fp_intermediate\<close> differ in the type of the buffer
  only.
\<close>

definition pxfmt_convert_pixels ::
  "oor_conv \<Rightarrow> intermediate \<Rightarrow> memory \<Rightarrow> nat \<Rightarrow> nat \<Rightarrow> int \<Rightarrow> int \<Rightarrow>
   pxfmt_sized_format \<Rightarrow> pxfmt_sized_format \<Rightarrow> failure option \<times> memory" where
  "pxfmt_convert_pixels oor garbage mem pDst pSrc width height src_fmt dst_fmt =
     (case (get_pxfmt_info (word_of_int width) None src_fmt,
            get_pxfmt_info (word_of_int width) None dst_fmt) of
        (Some (src_pixel_stride, src_row_stride, src_needs_fp_intermediate),
         Some (dst_pixel_stride, dst_row_stride, dst_needs_fp_intermediate)) \<Rightarrow>
          if \<not> src_pixel_stride > 0 then (Some Assert_src_pixel_stride, mem)
          else if \<not> src_row_stride > 0 then (Some Assert_src_row_stride, mem)
          else if \<not> dst_pixel_stride > 0 then (Some Assert_dst_pixel_stride, mem)
          else if \<not> dst_row_stride > 0 then (Some Assert_dst_row_stride, mem)
          else if src_needs_fp_intermediate \<noteq> dst_needs_fp_intermediate then
            (Some Assert_same_intermediate, mem)
          else if src_needs_fp_intermediate then
            (case row_loop oor src_fmt dst_fmt src_pixel_stride dst_pixel_stride
                    src_row_stride dst_row_stride height 0 (pSrc, pDst, garbage, mem) of
               (src_row, dst_row, intermediate, mem) \<Rightarrow> (None, mem))
          else
            (case row_loop oor src_fmt dst_fmt src_pixel_stride dst_pixel_stride
                    src_row_stride dst_row_stride height 0 (pSrc, pDst, garbage, mem) of
               (src_row, dst_row, intermediate, mem) \<Rightarrow> (None, mem))
      | _ \<Rightarrow> (Some Indeterminate_value, mem))"


subsection \<open>The build with \<^verbatim>\<open>NDEBUG\<close>\<close>

text \<open>
  With \<^verbatim>\<open>NDEBUG\<close> defined the five \<^verbatim>\<open>assert\<close> lines are empty, and nothing keeps the pixel
  loops from running when the two formats disagree on the kind of intermediate. The buffer
  is then \<^verbatim>\<open>double intermediate[4]\<close> or \<^verbatim>\<open>uint32 intermediate[4]\<close> as the source format
  needs, and \<^verbatim>\<open>from_intermediate<F>\<close> reads it through a pointer to the intermediate type of
  the destination format. The four \<^verbatim>\<open>uint32\<close>s that it finds in a buffer of \<^verbatim>\<open>double\<close>s are
  the halves of the first two \<^verbatim>\<open>double\<close>s, low half first; the first two \<^verbatim>\<open>double\<close>s that it finds in a
  buffer of \<^verbatim>\<open>uint32\<close>s are made of its four elements, and the other two lie behind the
  buffer: \<open>beyond\<close> is what is there.
\<close>

definition view_buffer :: "ctype \<Rightarrow> ctype \<Rightarrow> intermediate \<Rightarrow> intermediate \<Rightarrow> intermediate" where
  "view_buffer buffer_type as_type beyond buf =
     (if as_type = buffer_type then buf
      else if buffer_type = Double then
        [take_bit 32 (buf ! 0), drop_bit 32 (buf ! 0), take_bit 32 (buf ! 1), drop_bit 32 (buf ! 1)]
      else
        [take_bit 32 (buf ! 0) OR push_bit 32 (buf ! 1),
         take_bit 32 (buf ! 2) OR push_bit 32 (buf ! 3), beyond ! 0, beyond ! 1])"

text \<open>
  The run-time \<^verbatim>\<open>from_intermediate\<close>, called on a buffer of elements of \<open>buffer_type\<close>.
\<close>

definition from_intermediate_of ::
  "oor_conv \<Rightarrow> ctype \<Rightarrow> intermediate \<Rightarrow> memory \<Rightarrow> nat \<Rightarrow> intermediate \<Rightarrow>
   pxfmt_sized_format \<Rightarrow> memory" where
  "from_intermediate_of oor buffer_type beyond mem pDst intermediate dst_fmt =
     (case pxfmt_per_fmt_info dst_fmt of
        Some info \<Rightarrow>
          from_intermediate_F oor info mem pDst
            (view_buffer buffer_type (m_intermediate_type info) beyond intermediate)
      | None \<Rightarrow> mem)"

function pixel_loop_NDEBUG ::
  "oor_conv \<Rightarrow> ctype \<Rightarrow> intermediate \<Rightarrow> pxfmt_sized_format \<Rightarrow> pxfmt_sized_format \<Rightarrow>
   uint32 \<Rightarrow> uint32 \<Rightarrow> int \<Rightarrow> int \<Rightarrow>
   nat \<times> nat \<times> intermediate \<times> memory \<Rightarrow> nat \<times> nat \<times> intermediate \<times> memory" where
  "pixel_loop_NDEBUG oor buffer_type beyond src_fmt dst_fmt src_pixel_stride dst_pixel_stride
     height x (src, dst, intermediate, mem) =
     (if x < height then
        (let intermediate = to_intermediate oor intermediate mem src src_fmt;
             mem = from_intermediate_of oor buffer_type beyond mem dst intermediate dst_fmt
         in pixel_loop_NDEBUG oor buffer_type beyond src_fmt dst_fmt
              src_pixel_stride dst_pixel_stride height (x + 1)
              (src + unat src_pixel_stride, dst + unat dst_pixel_stride, intermediate, mem))
      else (src, dst, intermediate, mem))"
  by pat_completeness auto
termination
  by (relation "measure (\<lambda>(oor, bt, b, sf, df, sps, dps, height, x, s). nat (height - x))") auto

declare pixel_loop_NDEBUG.simps [simp del]

function row_loop_NDEBUG ::
  "oor_conv \<Rightarrow> ctype \<Rightarrow> intermediate \<Rightarrow> pxfmt_sized_format \<Rightarrow> pxfmt_sized_format \<Rightarrow>
   uint32 \<Rightarrow> uint32 \<Rightarrow> uint32 \<Rightarrow> uint32 \<Rightarrow> int \<Rightarrow> int \<Rightarrow>
   nat \<times> nat \<times> intermediate \<times> memory \<Rightarrow> nat \<times> nat \<times> intermediate \<times> memory" where
  "row_loop_NDEBUG oor buffer_type beyond src_fmt dst_fmt src_pixel_stride dst_pixel_stride
     src_row_stride dst_row_stride height y (src_row, dst_row, intermediate, mem) =
     (if y < height then
        (case pixel_loop_NDEBUG oor buffer_type beyond src_fmt dst_fmt
                src_pixel_stride dst_pixel_stride height 0
                (src_row, dst_row, intermediate, mem) of
           (src, dst, intermediate, mem) \<Rightarrow>
             row_loop_NDEBUG oor buffer_type beyond src_fmt dst_fmt
               src_pixel_stride dst_pixel_stride src_row_stride dst_row_stride height (y + 1)
               (src_row + unat src_row_stride, dst_row + unat dst_row_stride, intermediate, mem))
      else (src_row, dst_row, intermediate, mem))"
  by pat_completeness auto
termination
  by (relation
        "measure (\<lambda>(oor, bt, b, sf, df, sps, dps, srs, drs, height, y, s). nat (height - y))")
    auto

declare row_loop_NDEBUG.simps [simp del]

text \<open>
  \<^verbatim>\<open>pxfmt_convert_pixels\<close> without its assertions. The branch reads
  \<^verbatim>\<open>src_needs_fp_intermediate\<close>, and the loops read the strides of the destination when
  there is a row to convert.
\<close>

definition pxfmt_convert_pixels_NDEBUG ::
  "oor_conv \<Rightarrow> intermediate \<Rightarrow> intermediate \<Rightarrow> memory \<Rightarrow> nat \<Rightarrow> nat \<Rightarrow> int \<Rightarrow> int \<Rightarrow>
   pxfmt_sized_format \<Rightarrow> pxfmt_sized_format \<Rightarrow> failure option \<times> memory" where
  "pxfmt_convert_pixels_NDEBUG oor garbage beyond mem pDst pSrc width height src_fmt dst_fmt =
     (case get_pxfmt_info (word_of_int width) None src_fmt of
        None \<Rightarrow> (Some Indeterminate_value, mem)
      | Some (src_pixel_stride, src_row_stride, src_needs_fp_intermediate) \<Rightarrow>
          (case get_pxfmt_info (word_of_int width) None dst_fmt of
             None \<Rightarrow> (if 0 < height then (Some Indeterminate_value, mem) else (None, mem))
           | Some (dst_pixel_stride, dst_row_stride, dst_needs_fp_intermediate) \<Rightarrow>
               if src_needs_fp_intermediate then
                 (case row_loop_NDEBUG oor Double beyond src_fmt dst_fmt
                         src_pixel_stride dst_pixel_stride src_row_stride dst_row_stride
                         height 0 (pSrc, pDst, garbage, mem) of
                    (src_row, dst_row, intermediate, mem) \<Rightarrow> (None, mem))
               else
                 (case row_loop_NDEBUG oor Uint32 beyond src_fmt dst_fmt
                         src_pixel_stride dst_pixel_stride src_row_stride dst_row_stride
                         height 0 (pSrc, pDst, garbage, mem) of
                    (src_row, dst_row, intermediate, mem) \<Rightarrow> (None, mem))))"

section \<open>Notions of the specification\<close>

text \<open>
  What the specification calls the supported pairs of a component layout and a datatype,
  by kind of layout: the scalar integer types, \<^verbatim>\<open>GL_FLOAT\<close> for the layouts that are not
  integer layouts, the packed types of three components for the RGB layouts, those of
  four components for the RGBA and BGRA layouts, and the two combined types for
  depth-stencil.
\<close>

definition supported_types :: "GLenum \<Rightarrow> GLenum list" where
  "supported_types format =
     (let scalar = [GL_UNSIGNED_BYTE, GL_BYTE, GL_UNSIGNED_SHORT, GL_SHORT, GL_UNSIGNED_INT, GL_INT];
          packed3 = [GL_UNSIGNED_BYTE_3_3_2, GL_UNSIGNED_BYTE_2_3_3_REV,
                     GL_UNSIGNED_SHORT_5_6_5, GL_UNSIGNED_SHORT_5_6_5_REV];
          packed4 = [GL_UNSIGNED_SHORT_4_4_4_4, GL_UNSIGNED_SHORT_4_4_4_4_REV,
                     GL_UNSIGNED_SHORT_5_5_5_1, GL_UNSIGNED_SHORT_1_5_5_5_REV,
                     GL_UNSIGNED_INT_8_8_8_8, GL_UNSIGNED_INT_8_8_8_8_REV,
                     GL_UNSIGNED_INT_10_10_10_2, GL_UNSIGNED_INT_2_10_10_10_REV]
      in if format \<in> set [GL_RED, GL_GREEN, GL_BLUE, GL_ALPHA, GL_RG,
                             GL_DEPTH_COMPONENT, GL_STENCIL_INDEX] then scalar @ [GL_FLOAT]
         else if format = GL_RGB then scalar @ [GL_FLOAT] @ packed3
         else if format \<in> set [GL_RGBA, GL_BGRA] then scalar @ [GL_FLOAT] @ packed4
         else if format \<in> set [GL_RED_INTEGER, GL_GREEN_INTEGER, GL_BLUE_INTEGER,
                                  GL_ALPHA_INTEGER, GL_RG_INTEGER] then scalar
         else if format = GL_RGB_INTEGER then scalar @ packed3
         else if format \<in> set [GL_RGBA_INTEGER, GL_BGRA_INTEGER] then scalar @ packed4
         else if format = GL_DEPTH_STENCIL then
           [GL_UNSIGNED_INT_24_8, GL_FLOAT_32_UNSIGNED_INT_24_8_REV]
         else [])"

text \<open>
  The invariant of a packed format: the masks of the components that are present
  (\<^verbatim>\<open>m_index[c] >= 0\<close>) are pairwise disjoint, and each fits the scalar the pixel is stored
  in, which has \<open>8 \<sqdot> sizeof m_formatted_type\<close> bits.
\<close>

definition present :: "pxfmt_per_fmt_info \<Rightarrow> nat \<Rightarrow> bool" where
  "present info c = (0 \<le> m_index info ! c)"

definition storage_bits :: "pxfmt_per_fmt_info \<Rightarrow> nat" where
  "storage_bits info = 8 * sizeof (m_formatted_type info)"

definition masks_disjoint :: "pxfmt_per_fmt_info \<Rightarrow> bool" where
  "masks_disjoint info =
     list_all (\<lambda>(c, d). if present info c \<and> present info d
                          then m_mask info ! c AND m_mask info ! d = 0 else True)
       [(0, 1), (0, 2), (0, 3), (1, 2), (1, 3), (2, 3)]"

definition masks_fit :: "pxfmt_per_fmt_info \<Rightarrow> bool" where
  "masks_fit info =
     list_all (\<lambda>c. if present info c then unat (m_mask info ! c) < 2 ^ storage_bits info
                    else True)
       [0, 1, 2, 3]"

text \<open>
  Facts about a line of the table that the proofs about the decoder use: the four indices
  are \<open>-1\<close> or a slot, there are at most four components, the intermediate type is
  \<^verbatim>\<open>double\<close> or \<^verbatim>\<open>uint32\<close>, and the two depth-stencil formats have the components 0 and 1.
\<close>

definition wf_index :: "pxfmt_per_fmt_info \<Rightarrow> bool" where
  "wf_index info =
     (length (m_index info) = 4 \<and> (\<forall>k \<in> set (m_index info). - 1 \<le> k \<and> k < 4) \<and>
      unat (m_num_components info) \<le> 4 \<and>
      (m_intermediate_type info = Double \<or> m_intermediate_type info = Uint32) \<and>
      (m_fmt info = PXFMT_D24_UNORM_S8_UINT \<or> m_fmt info = PXFMT_D32_FLOAT_S8_UINT \<longrightarrow>
         m_index info ! 0 = 0 \<and> m_index info ! 1 = 1 \<and> m_num_components info = 2))"

text \<open>Concrete inputs for the examples: a memory of zeros, and a machine whose
  out-of-range conversions yield zero.\<close>

definition zero_memory :: memory where
  "zero_memory = (\<lambda>a. 0)"

definition oor_zero :: oor_conv where
  "oor_zero to from w = 0"

section \<open>Properties\<close>

subsection \<open>The table\<close>

lemma pxfmt_per_fmt_info_in_table:
  "pxfmt_per_fmt_info F = Some info \<Longrightarrow> info \<in> set fmt_info_table \<and> m_fmt info = F"
  unfolding pxfmt_per_fmt_info_def by (auto simp: find_Some_iff)

lemma FMT_INFO_sel:
  "m_fmt (FMT_INFO F a b c d e f g h i0 i1 i2 i3 n0 n1 n2 n3 s0 s1 s2 s3) = F"
  "m_formatted_type (FMT_INFO F a b c d e f g h i0 i1 i2 i3 n0 n1 n2 n3 s0 s1 s2 s3) = a"
  "m_intermediate_type (FMT_INFO F a b c d e f g h i0 i1 i2 i3 n0 n1 n2 n3 s0 s1 s2 s3) = b"
  "m_num_components (FMT_INFO F a b c d e f g h i0 i1 i2 i3 n0 n1 n2 n3 s0 s1 s2 s3) = c"
  "m_bytes_per_pixel (FMT_INFO F a b c d e f g h i0 i1 i2 i3 n0 n1 n2 n3 s0 s1 s2 s3) = d"
  "m_needs_fp_intermediate (FMT_INFO F a b c d e f g h i0 i1 i2 i3 n0 n1 n2 n3 s0 s1 s2 s3) = e"
  "m_is_normalized (FMT_INFO F a b c d e f g h i0 i1 i2 i3 n0 n1 n2 n3 s0 s1 s2 s3) = f"
  "m_is_signed (FMT_INFO F a b c d e f g h i0 i1 i2 i3 n0 n1 n2 n3 s0 s1 s2 s3) = g"
  "m_is_packed (FMT_INFO F a b c d e f g h i0 i1 i2 i3 n0 n1 n2 n3 s0 s1 s2 s3) = h"
  "m_index (FMT_INFO F a b c d e f g h i0 i1 i2 i3 n0 n1 n2 n3 s0 s1 s2 s3) = [i0, i1, i2, i3]"
  "m_max (FMT_INFO F a b c d e f g h i0 i1 i2 i3 n0 n1 n2 n3 s0 s1 s2 s3) =
     [max_values g n0, max_values g n1, max_values g n2, max_values g n3]"
  "m_shift (FMT_INFO F a b c d e f g h i0 i1 i2 i3 n0 n1 n2 n3 s0 s1 s2 s3) =
     [of_nat s0, of_nat s1, of_nat s2, of_nat s3]"
  "m_mask (FMT_INFO F a b c d e f g h i0 i1 i2 i3 n0 n1 n2 n3 s0 s1 s2 s3) =
     [push_bit s0 (max_values g n0), push_bit s1 (max_values g n1),
      push_bit s2 (max_values g n2), push_bit s3 (max_values g n3)]"
  by (simp_all add: FMT_INFO_def)

text \<open>
  The table is long: a lookup in it, and a fact about all of its lines, is computed with
  these rewrite rules alone.
\<close>

lemmas lookup_simps =
  pxfmt_per_fmt_info_def fmt_info_table_def pxfmt_enum FMT_INFO_sel(1) find.simps rel_simps
  if_False if_True simp_thms

lemmas table_simps =
  fmt_info_table_def pxfmt_enum FMT_INFO_sel list.set ball_simps rel_simps simp_thms

lemma max_values_simps:
  "max_values False 0 = 0" "max_values False 1 = 1" "max_values False (Suc 0) = 1"
  "max_values False 2 = 3"
  "max_values False 3 = 7" "max_values False 4 = 15" "max_values False 5 = 31"
  "max_values False 6 = 63" "max_values False 8 = 255" "max_values False 10 = 1023"
  "max_values False 16 = 65535" "max_values False 24 = 16777215"
  "max_values False 32 = 4294967295" "max_values True 0 = 0" "max_values True 8 = 127"
  "max_values True 16 = 32767" "max_values True 32 = 2147483647"
  by (simp_all add: max_values_def)

subsection \<open>Strides\<close>

lemma clear_low_two_bits: "(y :: 32 word) AND 0xFFFFFFFC = push_bit 2 (drop_bit 2 y)"
proof -
  have c: "(0xFFFFFFFC :: 32 word) = NOT (mask 2)"
    by (simp add: mask_eq_exp_minus_1)
  show ?thesis
    unfolding c
  proof (rule bit_word_eqI)
    fix n assume "n < LENGTH(32)"
    have "Suc (Suc (n - 2)) = n" if "\<not> n < 2"
      using that by simp
    then show "bit (y AND NOT (mask 2)) n = bit (push_bit 2 (drop_bit 2 y)) n"
      by (cases "n < 2") (auto simp: bit_simps)
  qed
qed

lemma unat_clear_low_two_bits: "unat ((y :: 32 word) AND 0xFFFFFFFC) = 4 * (unat y div 4)"
proof -
  have d: "unat (y div 4) = unat y div 4"
    by (simp add: unat_div)
  have "unat y < 2 ^ 32"
    using unsigned_less [of y] by simp
  then have "unat (y div 4) * unat (4 :: 32 word) < 2 ^ LENGTH(32)"
    unfolding d by simp
  then have "unat (y div 4 * 4) = unat (y div 4) * unat (4 :: 32 word)"
    by (simp only: unat_mult_lem [THEN iffD1])
  then show ?thesis
    unfolding clear_low_two_bits by (simp add: push_bit_eq_mult drop_bit_eq_div d)
qed

lemma unat_row_stride:
  fixes b w :: "32 word"
  assumes "unat b * unat w + 3 < 2 ^ 32"
  shows "unat ((b * w + 3) AND 0xFFFFFFFC) = 4 * ((unat b * unat w + 3) div 4)"
proof -
  have "unat (b * w) = unat b * unat w"
    using assms by (simp add: unat_mult_lem [THEN iffD1])
  moreover have "unat (b * w + 3) = unat (b * w) + 3"
    using assms calculation by (simp add: unat_add_lem [THEN iffD1])
  ultimately show ?thesis
    by (simp add: unat_clear_low_two_bits)
qed

text \<open>
  C7, as amended. For every format of the table and every width, \<^verbatim>\<open>get_pxfmt_info\<close> sets the
  pixel stride to the format's bytes per pixel and the row stride to
  \<^verbatim>\<open>((bytes_per_pixel * width) + 3)\<close> with the low two bits cleared, computed on 32 bits,
  modulo \<open>2\<^sup>3\<^sup>2\<close>. When the product plus 3 is below \<open>2\<^sup>3\<^sup>2\<close>, that is \<open>bytes_per_pixel \<sqdot> width\<close>
  rounded up to a multiple of 4.
\<close>

theorem get_pxfmt_info_strides:
  assumes "pxfmt_per_fmt_info F = Some info"
  shows "get_pxfmt_info width outs F =
           Some (m_bytes_per_pixel info,
                 (m_bytes_per_pixel info * width + 3) AND 0xFFFFFFFC,
                 m_needs_fp_intermediate info)
         \<and> (unat (m_bytes_per_pixel info) * unat width + 3 < 2 ^ 32 \<longrightarrow>
              unat ((m_bytes_per_pixel info * width + 3) AND 0xFFFFFFFC) =
                4 * ((unat (m_bytes_per_pixel info) * unat width + 3) div 4))"
  using assms unat_row_stride [of "m_bytes_per_pixel info" width]
  by (simp add: get_pxfmt_info_def get_pxfmt_info_F_def Let_def)

lemma info_RGB8_UNORM:
  "pxfmt_per_fmt_info PXFMT_RGB8_UNORM =
     Some (FMT_INFO PXFMT_RGB8_UNORM Uint8 Double 3 3 True True False False
             0 1 2 (-1)  8 8 8 0  0 0 0 0)"
  by (simp only: lookup_simps)

theorem get_pxfmt_info_strides_witness:
  "pxfmt_per_fmt_info PXFMT_RGB8_UNORM =
     Some (FMT_INFO PXFMT_RGB8_UNORM Uint8 Double 3 3 True True False False
             0 1 2 (-1)  8 8 8 0  0 0 0 0)
   \<and> get_pxfmt_info 5 None PXFMT_RGB8_UNORM = Some (3, 16, True)"
proof -
  have h: "pxfmt_per_fmt_info PXFMT_RGB8_UNORM =
     Some (FMT_INFO PXFMT_RGB8_UNORM Uint8 Double 3 3 True True False False
             0 1 2 (-1)  8 8 8 0  0 0 0 0)"
    by (simp only: lookup_simps)
  show ?thesis
    using h get_pxfmt_info_strides [OF h, of 5 None] by (simp add: FMT_INFO_sel)
qed

text \<open>
  The claim as it was stated, for every width, fails where the product wraps: the width
  \<open>0x55555556\<close> is a positive \<^verbatim>\<open>int\<close>, three bytes per pixel make \<open>2\<^sup>3\<^sup>2 + 2\<close> bytes, which
  rounded up to a multiple of 4 are 4294967300, and the row stride of the code is 4.
\<close>

theorem row_stride_wraps:
  "(word_of_int 1431655766 :: 32 word) = 0x55555556 \<and>
   get_pxfmt_info 0x55555556 None PXFMT_RGB8_UNORM = Some (3, 4, True) \<and>
   4 * ((3 * 1431655766 + 3) div 4) = (4294967300 :: nat)"
  by (simp add: get_pxfmt_info_def info_RGB8_UNORM get_pxfmt_info_F_def FMT_INFO_sel)

subsection \<open>The masks of the packed formats\<close>

text \<open>
  C8. The invariant fails for \<^verbatim>\<open>PXFMT_RGB565_UINT\<close>: the line of the table gives it the
  storage type \<^verbatim>\<open>uint8\<close>, a scalar of 8 bits, with two bytes per pixel and the shifts 11, 5
  and 0. Its three masks are disjoint, but the masks \<open>0xF800\<close> and \<open>0x07E0\<close> do not fit
  8 bits. (\<^verbatim>\<open>PXFMT_RGB565_UNORM\<close>, with the same bits and shifts, has the storage type
  \<^verbatim>\<open>uint16\<close>.)
\<close>

theorem rgb565_uint_masks_do_not_fit:
  "\<exists>info. pxfmt_per_fmt_info PXFMT_RGB565_UINT = Some info \<and> m_is_packed info \<and>
     m_formatted_type info = Uint8 \<and> storage_bits info = 8 \<and> m_bytes_per_pixel info = 2 \<and>
     m_index info = [0, 1, 2, -1] \<and> m_mask info = [0xF800, 0x07E0, 0x001F, 0] \<and>
     masks_disjoint info \<and> \<not> masks_fit info"
proof -
  have "pxfmt_per_fmt_info PXFMT_RGB565_UINT =
     Some (FMT_INFO PXFMT_RGB565_UINT Uint8 Uint32 3 2 False False False True
             0 1 2 (-1)  5 6 5 0  11 5 0 0)"
    by (simp only: lookup_simps)
  then show ?thesis
    by (simp add: FMT_INFO_sel max_values_simps storage_bits_def masks_disjoint_def
          masks_fit_def present_def)
qed

text \<open>
  The invariant holds for every other packed format but \<^verbatim>\<open>PXFMT_RGB565REV_UINT\<close>, whose
  line has the same storage type.
\<close>

lemma packed_masks_of_the_table:
  "\<forall>info \<in> set fmt_info_table.
     m_is_packed info \<longrightarrow>
       masks_disjoint info \<and>
       (masks_fit info \<or> m_fmt info = PXFMT_RGB565_UINT \<or> m_fmt info = PXFMT_RGB565REV_UINT)"
  apply (simp only: table_simps)
  apply (simp add: masks_disjoint_def masks_fit_def present_def storage_bits_def FMT_INFO_sel
      max_values_simps)
  done

subsection \<open>\<^verbatim>\<open>validate_format_type_combo\<close>\<close>

lemmas switch_defs =
  switch_GL_RED_def switch_GL_GREEN_def switch_GL_BLUE_def switch_GL_ALPHA_def
  switch_GL_RG_def switch_GL_RGB_def switch_GL_RGBA_def switch_GL_BGRA_def
  switch_GL_RED_INTEGER_def switch_GL_GREEN_INTEGER_def switch_GL_BLUE_INTEGER_def
  switch_GL_ALPHA_INTEGER_def switch_GL_RG_INTEGER_def switch_GL_RGB_INTEGER_def
  switch_GL_RGBA_INTEGER_def switch_GL_BGRA_INTEGER_def switch_GL_DEPTH_COMPONENT_def
  switch_GL_STENCIL_INDEX_def switch_GL_DEPTH_STENCIL_def

lemma switch_result:
  assumes "\<forall>F \<in> set (map snd al). F \<noteq> PXFMT_INVALID"
  shows "((case map_of al k of Some F \<Rightarrow> F | None \<Rightarrow> PXFMT_INVALID) = PXFMT_INVALID)
         \<longleftrightarrow> k \<notin> set (map fst al)"
proof (cases "map_of al k")
  case None
  then have "k \<notin> set (map fst al)"
    by (simp add: map_of_eq_None_iff)
  with None show ?thesis by simp
next
  case (Some F)
  then have "(k, F) \<in> set al"
    by (rule map_of_SomeD)
  then have "F \<in> set (map snd al)" and k: "k \<in> set (map fst al)"
    by force+
  with assms have "F \<noteq> PXFMT_INVALID"
    by blast
  with Some k show ?thesis by simp
qed

lemma switch_values:
  "\<forall>F \<in> set (map snd switch_GL_RED). F \<noteq> PXFMT_INVALID"
  "\<forall>F \<in> set (map snd switch_GL_GREEN). F \<noteq> PXFMT_INVALID"
  "\<forall>F \<in> set (map snd switch_GL_BLUE). F \<noteq> PXFMT_INVALID"
  "\<forall>F \<in> set (map snd switch_GL_ALPHA). F \<noteq> PXFMT_INVALID"
  "\<forall>F \<in> set (map snd switch_GL_RG). F \<noteq> PXFMT_INVALID"
  "\<forall>F \<in> set (map snd switch_GL_RGB). F \<noteq> PXFMT_INVALID"
  "\<forall>F \<in> set (map snd switch_GL_RGBA). F \<noteq> PXFMT_INVALID"
  "\<forall>F \<in> set (map snd switch_GL_BGRA). F \<noteq> PXFMT_INVALID"
  "\<forall>F \<in> set (map snd switch_GL_RED_INTEGER). F \<noteq> PXFMT_INVALID"
  "\<forall>F \<in> set (map snd switch_GL_GREEN_INTEGER). F \<noteq> PXFMT_INVALID"
  "\<forall>F \<in> set (map snd switch_GL_BLUE_INTEGER). F \<noteq> PXFMT_INVALID"
  "\<forall>F \<in> set (map snd switch_GL_ALPHA_INTEGER). F \<noteq> PXFMT_INVALID"
  "\<forall>F \<in> set (map snd switch_GL_RG_INTEGER). F \<noteq> PXFMT_INVALID"
  "\<forall>F \<in> set (map snd switch_GL_RGB_INTEGER). F \<noteq> PXFMT_INVALID"
  "\<forall>F \<in> set (map snd switch_GL_RGBA_INTEGER). F \<noteq> PXFMT_INVALID"
  "\<forall>F \<in> set (map snd switch_GL_BGRA_INTEGER). F \<noteq> PXFMT_INVALID"
  "\<forall>F \<in> set (map snd switch_GL_DEPTH_COMPONENT). F \<noteq> PXFMT_INVALID"
  "\<forall>F \<in> set (map snd switch_GL_STENCIL_INDEX). F \<noteq> PXFMT_INVALID"
  "\<forall>F \<in> set (map snd switch_GL_DEPTH_STENCIL). F \<noteq> PXFMT_INVALID"
  by (simp_all only: switch_defs pxfmt_enum list.set list.map snd_conv ball_simps rel_simps
        simp_thms)

lemmas switch_invalid_iff = switch_values [THEN switch_result]

lemma switch_keys:
  "map fst switch_GL_RED = supported_types GL_RED"
  "map fst switch_GL_GREEN = supported_types GL_GREEN"
  "map fst switch_GL_BLUE = supported_types GL_BLUE"
  "map fst switch_GL_ALPHA = supported_types GL_ALPHA"
  "map fst switch_GL_RG = supported_types GL_RG"
  "map fst switch_GL_RGB = supported_types GL_RGB"
  "map fst switch_GL_RGBA = supported_types GL_RGBA"
  "map fst switch_GL_BGRA = supported_types GL_BGRA"
  "map fst switch_GL_RED_INTEGER = supported_types GL_RED_INTEGER"
  "map fst switch_GL_GREEN_INTEGER = supported_types GL_GREEN_INTEGER"
  "map fst switch_GL_BLUE_INTEGER = supported_types GL_BLUE_INTEGER"
  "map fst switch_GL_ALPHA_INTEGER = supported_types GL_ALPHA_INTEGER"
  "map fst switch_GL_RG_INTEGER = supported_types GL_RG_INTEGER"
  "map fst switch_GL_RGB_INTEGER = supported_types GL_RGB_INTEGER"
  "map fst switch_GL_RGBA_INTEGER = supported_types GL_RGBA_INTEGER"
  "map fst switch_GL_BGRA_INTEGER = supported_types GL_BGRA_INTEGER"
  "map fst switch_GL_DEPTH_COMPONENT = supported_types GL_DEPTH_COMPONENT"
  "map fst switch_GL_STENCIL_INDEX = supported_types GL_STENCIL_INDEX"
  "map fst switch_GL_DEPTH_STENCIL = supported_types GL_DEPTH_STENCIL"
  by (simp_all add: switch_defs supported_types_def gl_enum)

lemma supported_other:
  "format \<notin> set [
      GL_RED, GL_GREEN, GL_BLUE, GL_ALPHA, GL_RG, GL_RGB, GL_RGBA, GL_BGRA, GL_RED_INTEGER,
      GL_GREEN_INTEGER, GL_BLUE_INTEGER, GL_ALPHA_INTEGER, GL_RG_INTEGER, GL_RGB_INTEGER,
      GL_RGBA_INTEGER, GL_BGRA_INTEGER, GL_DEPTH_COMPONENT, GL_STENCIL_INDEX,
      GL_DEPTH_STENCIL] \<Longrightarrow> supported_types format = []"
  by (simp add: supported_types_def)

text \<open>
  The missing \<^verbatim>\<open>break\<close> changes no result: the case labels of \<^verbatim>\<open>GL_BGRA_INTEGER\<close> are those
  of \<^verbatim>\<open>GL_RGBA_INTEGER\<close>, so a type that reaches the second \<^verbatim>\<open>switch\<close> finds no label there.
\<close>

lemma fall_through:
  "(case map_of switch_GL_RGBA_INTEGER k of Some F \<Rightarrow> F
    | None \<Rightarrow> (case map_of switch_GL_BGRA_INTEGER k of Some F \<Rightarrow> F | None \<Rightarrow> PXFMT_INVALID)) =
   (case map_of switch_GL_RGBA_INTEGER k of Some F \<Rightarrow> F | None \<Rightarrow> PXFMT_INVALID)"
proof (cases "map_of switch_GL_RGBA_INTEGER k")
  case None
  have "supported_types GL_BGRA_INTEGER = supported_types GL_RGBA_INTEGER"
    by (simp add: supported_types_def gl_enum)
  then have e: "map fst switch_GL_BGRA_INTEGER = map fst switch_GL_RGBA_INTEGER"
    by (simp only: switch_keys)
  from None have "k \<notin> set (map fst switch_GL_RGBA_INTEGER)"
    by (simp add: map_of_eq_None_iff)
  then have "k \<notin> set (map fst switch_GL_BGRA_INTEGER)"
    unfolding e .
  then have "map_of switch_GL_BGRA_INTEGER k = None"
    by (simp add: map_of_eq_None_iff)
  with None show ?thesis by simp
next
  case (Some F)
  then show ?thesis by simp
qed

text \<open>
  C3. \<^verbatim>\<open>validate_format_type_combo\<close> is a function of its two arguments, defined for every
  pair of \<^verbatim>\<open>GLenum\<close>s, and it returns \<^verbatim>\<open>PXFMT_INVALID\<close> exactly for the pairs that are not
  supported: a pair outside the supported ones never gets a format, and a supported pair
  always gets one.
\<close>

theorem validate_format_type_combo_invalid_iff:
  "validate_format_type_combo format type = PXFMT_INVALID
   \<longleftrightarrow> type \<notin> set (supported_types format)"
proof (cases "format \<in> set [
      GL_RED, GL_GREEN, GL_BLUE, GL_ALPHA, GL_RG, GL_RGB, GL_RGBA, GL_BGRA, GL_RED_INTEGER,
      GL_GREEN_INTEGER, GL_BLUE_INTEGER, GL_ALPHA_INTEGER, GL_RG_INTEGER, GL_RGB_INTEGER,
      GL_RGBA_INTEGER, GL_BGRA_INTEGER, GL_DEPTH_COMPONENT, GL_STENCIL_INDEX,
      GL_DEPTH_STENCIL]")
  case False
  then show ?thesis
    using supported_other [OF False] by (simp add: validate_format_type_combo_def)
next
  case True
  then consider
    "format = GL_RED" |
    "format = GL_GREEN" |
    "format = GL_BLUE" |
    "format = GL_ALPHA" |
    "format = GL_RG" |
    "format = GL_RGB" |
    "format = GL_RGBA" |
    "format = GL_BGRA" |
    "format = GL_RED_INTEGER" |
    "format = GL_GREEN_INTEGER" |
    "format = GL_BLUE_INTEGER" |
    "format = GL_ALPHA_INTEGER" |
    "format = GL_RG_INTEGER" |
    "format = GL_RGB_INTEGER" |
    "format = GL_RGBA_INTEGER" |
    "format = GL_BGRA_INTEGER" |
    "format = GL_DEPTH_COMPONENT" |
    "format = GL_STENCIL_INDEX" |
    "format = GL_DEPTH_STENCIL"
    by auto
  then show ?thesis
    by cases
      (simp_all add: validate_format_type_combo_def gl_enum fall_through switch_invalid_iff
         switch_keys [unfolded gl_enum])
qed

text \<open>The pair of the depth layout and the packed 5-6-5 type is not supported.\<close>

theorem validate_format_type_combo_depth_565:
  "GL_UNSIGNED_SHORT_5_6_5 \<notin> set (supported_types GL_DEPTH_COMPONENT) \<and>
   validate_format_type_combo GL_DEPTH_COMPONENT GL_UNSIGNED_SHORT_5_6_5 = PXFMT_INVALID"
  using validate_format_type_combo_invalid_iff [of GL_DEPTH_COMPONENT GL_UNSIGNED_SHORT_5_6_5]
  by (simp add: supported_types_def gl_enum)

subsection \<open>\<^verbatim>\<open>pxfmt_convert_pixels\<close>\<close>

lemma info_R8_UNORM:
  "pxfmt_per_fmt_info PXFMT_R8_UNORM =
     Some (FMT_INFO PXFMT_R8_UNORM Uint8 Double 1 1 True True False False
             0 (-1) (-1) (-1)  8 0 0 0  0 0 0 0)"
  by (simp only: lookup_simps)

lemma info_R8_UINT:
  "pxfmt_per_fmt_info PXFMT_R8_UINT =
     Some (FMT_INFO PXFMT_R8_UINT Uint8 Uint32 1 1 False False False False
             0 (-1) (-1) (-1)  8 0 0 0  0 0 0 0)"
  by (simp only: lookup_simps)

lemma bytes_per_pixel_of_the_table:
  "\<forall>info \<in> set fmt_info_table. 0 < m_bytes_per_pixel info \<and> m_bytes_per_pixel info \<le> 16"
  apply (simp only: table_simps)
  apply simp
  done

lemma row_stride_positive:
  fixes b :: "32 word"
  assumes b: "0 < b" "b \<le> 16" and w: "0 < width" "width < 2 ^ 27"
  shows "0 < (b * word_of_int width + 3) AND 0xFFFFFFFC"
proof -
  have ub: "unat b \<le> 16" "0 < unat b"
    using b by (simp_all add: word_le_nat_alt word_less_nat_alt)
  have uw: "unat (word_of_int width :: 32 word) = nat width"
    using w by (simp add: unat_eq_nat_uint uint_word_of_int take_bit_eq_mod mod_pos_pos_trivial)
  have "unat b * nat width \<le> 16 * nat width"
    using ub by simp
  also have "\<dots> < 16 * 2 ^ 27"
    using w by simp
  finally have small: "unat b * unat (word_of_int width :: 32 word) + 3 < 2 ^ 32"
    by (simp add: uw)
  have "0 < unat b * nat width"
    using ub w by simp
  then have "0 < 4 * ((unat b * nat width + 3) div 4)"
    by arith
  then have "0 < unat ((b * word_of_int width + 3) AND 0xFFFFFFFC)"
    using unat_row_stride [OF small] by (simp add: uw)
  then show ?thesis
    by (simp add: word_less_nat_alt)
qed

text \<open>One byte, read and written as a \<^verbatim>\<open>uint8\<close> through a \<^verbatim>\<open>uint32\<close> intermediate.\<close>

lemma not_special_R8_UINT:
  "PXFMT_R8_UINT \<noteq> PXFMT_D24_UNORM_S8_UINT" "PXFMT_R8_UINT \<noteq> PXFMT_D32_FLOAT_S8_UINT"
  by (simp_all add: pxfmt_enum)

lemma uint_byte: "uint (ucast (b :: 8 word) :: 64 word) = uint b"
  by (simp add: uint_up_ucast is_up)

lemma uint_byte_mod: "uint (b :: 8 word) mod 256 = uint b"
  using uint_idem [of b] by simp

lemma uint_byte_mod32: "uint (b :: 8 word) mod 4294967296 = uint b"
proof -
  have "uint b < 256"
    using uint_lt2p [of b] by simp
  then show ?thesis
    by (simp add: mod_pos_pos_trivial)
qed

lemma c_cast_Uint32_Uint8: "c_cast oor Uint32 Uint8 (ucast (b :: 8 word)) = ucast b"
  by (simp add: c_cast_def c_int_value_def uint_byte uint_byte_mod uint_byte_mod32 of_int_uint)

lemma low_byte:
  "(ucast (word_of_int (uint (a :: 64 word) mod 4294967296 mod 256) :: 64 word) :: 8 word) =
   ucast a"
proof -
  have "uint a mod 4294967296 mod 256 = uint a mod 2 ^ 8"
    by (simp add: mod_mod_cancel)
  then have "(word_of_int (uint a mod 4294967296 mod 256) :: 64 word) = a AND mask 8"
    by (simp only: and_mask_mod_2p)
  then show ?thesis
    by (simp add: bit_eq_iff bit_simps)
qed

lemma to_intermediate_R8_UINT:
  "to_intermediate oor im mem src PXFMT_R8_UINT = [ucast (mem src), 0, 0, 1]"
  by (simp add: to_intermediate_def info_R8_UINT to_intermediate_F_def FMT_INFO_sel
        not_special_R8_UINT set_intermediate_to_defaults_def to_int_comp_copy_def index_of_def
        elem_def load_def c_cast_Uint32_Uint8)
    (simp add: c_cast_def c_int_value_def)

lemma from_intermediate_R8_UINT:
  "from_intermediate oor mem dst [a, b, c, d] PXFMT_R8_UINT = mem(dst := ucast a)"
  by (simp add: from_intermediate_def info_R8_UINT from_intermediate_F_def FMT_INFO_sel
        not_special_R8_UINT from_int_comp_copy_def index_of_def store_def c_cast_def
        c_int_value_def low_byte)

text \<open>One byte of \<^verbatim>\<open>PXFMT_R8_UNORM\<close>, read into a \<^verbatim>\<open>double\<close> intermediate.\<close>

lemma not_special_R8_UNORM:
  "PXFMT_R8_UNORM \<noteq> PXFMT_D24_UNORM_S8_UINT" "PXFMT_R8_UNORM \<noteq> PXFMT_D32_FLOAT_S8_UINT"
  by (simp_all add: pxfmt_enum)

lemma ucast_ucast_byte: "(ucast (ucast (b :: 8 word) :: 64 word) :: 32 word) = ucast b"
  by (rule bit_word_eqI) (auto simp: bit_simps)

lemma one_as_double:
  "(word_of_int (fp_encode 52 11 (Finite False 1)) :: 64 word) = 0x3FF0000000000000"
  by code_simp

lemma c_value_Int32: "c_value Int32 1 = Finite False 1" "c_value Int32 0 = Finite False 0"
  by (simp_all add: c_value_def c_int_value_def)

lemma defaults_Double:
  "m_intermediate_type info = Double \<Longrightarrow>
   set_intermediate_to_defaults oor info = [0, 0, 0, 0x3FF0000000000000]"
  by (simp add: set_intermediate_to_defaults_def c_cast_def c_value_Int32 one_as_double)
    (simp add: fp_encode_def)

lemma defaults_Uint32:
  "m_intermediate_type info = Uint32 \<Longrightarrow>
   set_intermediate_to_defaults oor info = [0, 0, 0, 1]"
  by (simp add: set_intermediate_to_defaults_def c_cast_def c_int_value_def)

lemma to_intermediate_R8_UNORM:
  "to_intermediate oor im mem src PXFMT_R8_UNORM =
     [double_div (uint32_to_double (ucast (mem src))) (uint32_to_double 255), 0, 0,
      0x3FF0000000000000]"
  by (simp add: to_intermediate_def info_R8_UNORM to_intermediate_F_def FMT_INFO_sel
        not_special_R8_UNORM defaults_Double to_int_comp_norm_unpacked_def index_of_def
        elem_def load_def to_uint32_def c_cast_Uint32_Uint8 max_values_simps ucast_ucast_byte)
    (simp add: c_cast_def)

lemma aa_over_255:
  "double_div (uint32_to_double 0xAA) (uint32_to_double 255) = 0x3FE5555555555555"
  by code_simp

text \<open>
  C2, as amended. In the build with the assertions compiled in, when the two formats have
  descriptors and disagree on the kind of intermediate, \<^verbatim>\<open>pxfmt_convert_pixels\<close> stops at a
  failed assertion before the loops, with the memory as it was. The function is
  \<^verbatim>\<open>void\<close>: the failure is that of \<^verbatim>\<open>assert\<close>, not a value it returns. The assertion that
  fails is \<^verbatim>\<open>src_needs_fp_intermediate == dst_needs_fp_intermediate\<close> when neither row stride
  is 0, and otherwise the assertion on the first row stride that is 0, which comes before it
  in the code.
\<close>

theorem convert_mismatch_fails_before_loop:
  assumes s: "pxfmt_per_fmt_info src_fmt = Some sinfo"
    and d: "pxfmt_per_fmt_info dst_fmt = Some dinfo"
    and ne: "m_needs_fp_intermediate sinfo \<noteq> m_needs_fp_intermediate dinfo"
  shows "pxfmt_convert_pixels oor garbage mem pDst pSrc width height src_fmt dst_fmt =
           (Some (if (m_bytes_per_pixel sinfo * word_of_int width + 3) AND 0xFFFFFFFC = 0
                  then Assert_src_row_stride
                  else if (m_bytes_per_pixel dinfo * word_of_int width + 3) AND 0xFFFFFFFC = 0
                  then Assert_dst_row_stride
                  else Assert_same_intermediate),
            mem)"
proof -
  from s d have "sinfo \<in> set fmt_info_table" "dinfo \<in> set fmt_info_table"
    by (simp_all add: pxfmt_per_fmt_info_in_table)
  with bytes_per_pixel_of_the_table
  have bs: "0 < m_bytes_per_pixel sinfo" and bd: "0 < m_bytes_per_pixel dinfo"
    by blast+
  with s d ne show ?thesis
    by (simp add: pxfmt_convert_pixels_def get_pxfmt_info_def get_pxfmt_info_F_def Let_def
          word_greater_zero_iff)
qed

theorem convert_mismatch_fails_before_loop_witness:
  "pxfmt_per_fmt_info PXFMT_R8_UNORM =
     Some (FMT_INFO PXFMT_R8_UNORM Uint8 Double 1 1 True True False False
             0 (-1) (-1) (-1)  8 0 0 0  0 0 0 0) \<and>
   pxfmt_per_fmt_info PXFMT_R8_UINT =
     Some (FMT_INFO PXFMT_R8_UINT Uint8 Uint32 1 1 False False False False
             0 (-1) (-1) (-1)  8 0 0 0  0 0 0 0) \<and>
   pxfmt_convert_pixels oor_zero [] (zero_memory(0 := 0xAA, 1 := 0xBB)) 8 0 2 1
     PXFMT_R8_UNORM PXFMT_R8_UINT =
   (Some Assert_same_intermediate, zero_memory(0 := 0xAA, 1 := 0xBB))"
proof -
  have ne: "m_needs_fp_intermediate (FMT_INFO PXFMT_R8_UNORM Uint8 Double 1 1 True True False False
             0 (-1) (-1) (-1)  8 0 0 0  0 0 0 0) \<noteq>
     m_needs_fp_intermediate (FMT_INFO PXFMT_R8_UINT Uint8 Uint32 1 1 False False False False
             0 (-1) (-1) (-1)  8 0 0 0  0 0 0 0)"
    by (simp add: FMT_INFO_sel)
  show ?thesis
    using convert_mismatch_fails_before_loop [OF info_R8_UNORM info_R8_UINT ne,
        of oor_zero "[]" "zero_memory(0 := 0xAA, 1 := 0xBB)" 8 0 2 1]
      info_R8_UNORM info_R8_UINT
    by (simp add: FMT_INFO_sel)
qed

text \<open>
  The claim as it was stated fails twice. In the build with \<^verbatim>\<open>NDEBUG\<close> nothing checks the
  two formats: for one pixel \<open>0xAA\<close> of \<^verbatim>\<open>PXFMT_R8_UNORM\<close>, which needs the floating-point
  intermediate, and the destination format \<^verbatim>\<open>PXFMT_R8_UINT\<close>, which needs the integer one,
  the call returns and has written the destination: the byte \<open>0x55\<close>, the low byte of the
  \<^verbatim>\<open>double\<close> \<open>0xAA / 255\<close>. In the build with the assertions, for an image of width 0 both
  row strides are 0, and the assertion that fails is the one on the row stride of the
  source, not the one on the kind of intermediate.
\<close>

theorem convert_mismatch_NDEBUG_and_width_0:
  "pxfmt_convert_pixels_NDEBUG oor_zero [] [] (zero_memory(0 := 0xAA)) 8 0 1 1
     PXFMT_R8_UNORM PXFMT_R8_UINT =
     (None, zero_memory(0 := 0xAA, 8 := 0x55)) \<and>
   pxfmt_convert_pixels oor_zero [] zero_memory 8 0 0 1 PXFMT_R8_UNORM PXFMT_R8_UINT =
     (Some Assert_src_row_stride, zero_memory) \<and>
   get_pxfmt_info 0 None PXFMT_R8_UNORM = Some (1, 0, True) \<and>
   get_pxfmt_info 0 None PXFMT_R8_UINT = Some (1, 0, False)"
proof -
  have v: "view_buffer Double Uint32 [] [0x3FE5555555555555, 0, 0, 0x3FF0000000000000] =
      [0x55555555, 0x3FE55555, 0, 0]"
    by (simp add: view_buffer_def)
  have b: "(1431655765 :: 8 word) = 85"
    by simp
  have "pxfmt_convert_pixels_NDEBUG oor_zero [] [] (zero_memory(0 := 0xAA)) 8 0 1 1
     PXFMT_R8_UNORM PXFMT_R8_UINT = (None, zero_memory(0 := 0xAA, 8 := 0x55))"
    by (simp add: b pxfmt_convert_pixels_NDEBUG_def get_pxfmt_info_def info_R8_UNORM
          info_R8_UINT get_pxfmt_info_F_def FMT_INFO_sel row_loop_NDEBUG.simps
          pixel_loop_NDEBUG.simps to_intermediate_R8_UNORM aa_over_255 from_intermediate_of_def
          v from_intermediate_R8_UINT [unfolded from_intermediate_def info_R8_UINT, simplified])
  moreover have "pxfmt_convert_pixels oor_zero [] zero_memory 8 0 0 1
       PXFMT_R8_UNORM PXFMT_R8_UINT = (Some Assert_src_row_stride, zero_memory) \<and>
     get_pxfmt_info 0 None PXFMT_R8_UNORM = Some (1, 0, True) \<and>
     get_pxfmt_info 0 None PXFMT_R8_UINT = Some (1, 0, False)"
    by (simp add: pxfmt_convert_pixels_def get_pxfmt_info_def get_pxfmt_info_F_def Let_def
          info_R8_UNORM info_R8_UINT FMT_INFO_sel)
  ultimately show ?thesis
    by simp
qed

text \<open>
  The loop over the pixels of a row runs from its counter to \<open>height\<close>, whatever the width:
  it leaves the pixel pointers \<open>height - x\<close> pixels further.
\<close>

lemma pixel_loop_pointers:
  "x \<le> height \<Longrightarrow>
   (case pixel_loop oor src_fmt dst_fmt sps dps height x (src, dst, im, mem) of
      (src', dst', im', mem') \<Rightarrow>
        src' = src + nat (height - x) * unat sps \<and> dst' = dst + nat (height - x) * unat dps)"
proof (induction oor src_fmt dst_fmt sps dps height x "(src, dst, im, mem)"
    arbitrary: src dst im mem rule: pixel_loop.induct)
  case (1 oor src_fmt dst_fmt sps dps height x src dst im mem)
  show ?case
  proof (cases "x < height")
    case True
    then have n: "nat (height - x) = Suc (nat (height - (x + 1)))"
      by simp
    from True have le: "x + 1 \<le> height"
      by simp
    show ?thesis
      apply (subst pixel_loop.simps)
      using True "1.hyps" [OF True refl refl le]
      apply (simp add: Let_def n split: prod.splits)
      done
  next
    case False
    with "1.prems" show ?thesis
      by (subst pixel_loop.simps) simp
  qed
qed

text \<open>
  C1. The claim fails on the code: the inner loop is \<^verbatim>\<open>for (int x = 0 ; x < height ; x++)\<close>.
  For an image of width 2 and height 1 in \<^verbatim>\<open>PXFMT_R8_UINT\<close>, with the source pixels \<open>0xAA\<close>
  and \<open>0xBB\<close> at the addresses 0 and 1 and the destination at the address 8, the call
  converts pixel \<open>(0, 0)\<close> only: the byte at 9, where pixel \<open>(1, 0)\<close> belongs, is not
  written.
\<close>

theorem convert_2x1_converts_one_pixel:
  "pxfmt_convert_pixels oor_zero [] (zero_memory(0 := 0xAA, 1 := 0xBB)) 8 0 2 1
     PXFMT_R8_UINT PXFMT_R8_UINT =
   (None, zero_memory(0 := 0xAA, 1 := 0xBB, 8 := 0xAA))"
  by (simp add: pxfmt_convert_pixels_def get_pxfmt_info_def info_R8_UINT get_pxfmt_info_F_def
        FMT_INFO_sel to_intermediate_R8_UINT from_intermediate_R8_UINT row_loop.simps
        pixel_loop.simps)

subsection \<open>The defaults of the intermediate values\<close>

lemma indices_of_the_table:
  "\<forall>info \<in> set fmt_info_table. wf_index info"
  apply (simp only: table_simps wf_index_def)
  apply simp
  done

lemma index_of_nat:
  assumes "0 \<le> k" "k < 4" "m_index info ! c = k"
  shows "index_of info c = nat k"
proof -
  from assms have "k \<in> {0, 1, 2, 3}"
    by auto
  with assms(3) show ?thesis
    unfolding index_of_def by auto
qed

lemma comp_keeps_slot:
  assumes "index_of info c \<noteq> j"
  shows "to_int_comp_packed oor info dst mem src c ! j = dst ! j"
    and "to_int_comp_norm_unpacked oor info dst mem src c ! j = dst ! j"
    and "to_int_comp_copy oor info dst mem src c ! j = dst ! j"
  using assms
  by (simp_all add: to_int_comp_packed_def to_int_comp_norm_unpacked_def to_int_comp_copy_def
        Let_def)

lemma fold_keeps_slot:
  assumes "\<forall>c \<in> set cs. 0 \<le> m_index info ! c \<longrightarrow> index_of info c \<noteq> j"
  shows "fold (\<lambda>c dst.
                   if m_index info ! c \<ge> 0 then
                     (if m_is_packed info then to_int_comp_packed oor info dst mem src c
                      else if m_is_normalized info then
                        to_int_comp_norm_unpacked oor info dst mem src c
                      else to_int_comp_copy oor info dst mem src c)
                   else dst) cs dst ! j = dst ! j"
  using assms
  by (induction cs arbitrary: dst) (simp_all add: comp_keeps_slot)

text \<open>
  C6. The decoder starts from the defaults \<open>0, 0, 0, 1\<close> in the intermediate type of the
  format (\<open>0x3FF0000000000000\<close> is the \<^verbatim>\<open>double\<close> 1), and a slot \<open>j\<close> that no present
  component of the format maps to holds its default after the pixel is decoded, whatever
  the pixel: for a format with no alpha component, slot 3 holds 1.
\<close>

theorem to_intermediate_keeps_defaults:
  assumes F: "pxfmt_per_fmt_info F = Some info"
    and j: "j < 4"
    and absent: "\<forall>c < unat (m_num_components info). m_index info ! c \<noteq> int j"
  shows "to_intermediate oor im mem src F ! j = set_intermediate_to_defaults oor info ! j \<and>
         set_intermediate_to_defaults oor info =
           (if m_intermediate_type info = Double then [0, 0, 0, 0x3FF0000000000000]
            else [0, 0, 0, 1])"
proof -
  from F have "info \<in> set fmt_info_table"
    by (simp add: pxfmt_per_fmt_info_in_table)
  with indices_of_the_table have wf: "wf_index info"
    by blast
  have idx: "index_of info c \<noteq> j"
    if "c < unat (m_num_components info)" "0 \<le> m_index info ! c" for c
  proof -
    from wf that(1) have "c < length (m_index info)"
      by (simp add: wf_index_def)
    then have "m_index info ! c \<in> set (m_index info)"
      by simp
    with wf have "m_index info ! c < 4"
      by (simp add: wf_index_def)
    with that(2) have "index_of info c = nat (m_index info ! c)"
      by (simp add: index_of_nat)
    with absent that show ?thesis
      by auto
  qed
  have special: "j \<noteq> 0 \<and> j \<noteq> 1 \<and> index_of info 0 = 0"
    if "m_fmt info = PXFMT_D24_UNORM_S8_UINT \<or> m_fmt info = PXFMT_D32_FLOAT_S8_UINT"
  proof -
    from wf that
    have *: "m_index info ! 0 = 0" "m_index info ! 1 = 1" "m_num_components info = 2"
      by (simp_all add: wf_index_def)
    then have "index_of info 0 = 0"
      by (simp add: index_of_def)
    moreover from absent [rule_format, of 0] absent [rule_format, of 1] *
    have "j \<noteq> 0" "j \<noteq> 1"
      by auto
    ultimately show ?thesis
      by simp
  qed
  have "to_intermediate_F oor info mem src ! j = set_intermediate_to_defaults oor info ! j"
  proof (cases "m_fmt info = PXFMT_D24_UNORM_S8_UINT \<or> m_fmt info = PXFMT_D32_FLOAT_S8_UINT")
    case True
    with special [OF True] show ?thesis
      by (auto simp: to_intermediate_F_def to_int_d24_unorm_s8_uint_def
            to_int_d32_float_s8_uint_def to_int_comp_copy_def Let_def)
  next
    case False
    have "\<forall>c \<in> set [0..<unat (m_num_components info)].
            0 \<le> m_index info ! c \<longrightarrow> index_of info c \<noteq> j"
      using idx by simp
    from fold_keeps_slot [OF this] False show ?thesis
      by (simp add: to_intermediate_F_def Let_def)
  qed
  moreover from wf have "m_intermediate_type info = Double \<or> m_intermediate_type info = Uint32"
    by (simp add: wf_index_def)
  ultimately show ?thesis
    using F by (auto simp: to_intermediate_def defaults_Double defaults_Uint32)
qed

lemma double_val_one: "double_val 0x3FF0000000000000 = Finite False 1"
  by (simp add: double_val_def fp_decode_def fp_bias_def pow2_def)

theorem to_intermediate_keeps_defaults_witness:
  "pxfmt_per_fmt_info PXFMT_RGB8_UNORM =
     Some (FMT_INFO PXFMT_RGB8_UNORM Uint8 Double 3 3 True True False False
             0 1 2 (-1)  8 8 8 0  0 0 0 0) \<and>
   to_intermediate oor_zero [] (zero_memory(0 := 0xAA, 1 := 0xBB, 2 := 0xCC)) 0
     PXFMT_RGB8_UNORM ! 3 = 0x3FF0000000000000 \<and>
   double_val 0x3FF0000000000000 = Finite False 1"
proof -
  have a: "\<forall>c < unat (m_num_components
               (FMT_INFO PXFMT_RGB8_UNORM Uint8 Double 3 3 True True False False
                  0 1 2 (-1)  8 8 8 0  0 0 0 0)).
      m_index (FMT_INFO PXFMT_RGB8_UNORM Uint8 Double 3 3 True True False False
                 0 1 2 (-1)  8 8 8 0  0 0 0 0) ! c \<noteq> int 3"
  proof (intro allI impI)
    fix c :: nat
    assume "c < unat (m_num_components
               (FMT_INFO PXFMT_RGB8_UNORM Uint8 Double 3 3 True True False False
                  0 1 2 (-1)  8 8 8 0  0 0 0 0))"
    then have "c < 3"
      by (simp add: FMT_INFO_sel)
    then have "c = 0 \<or> c = 1 \<or> c = 2"
      by arith
    then show "m_index (FMT_INFO PXFMT_RGB8_UNORM Uint8 Double 3 3 True True False False
                 0 1 2 (-1)  8 8 8 0  0 0 0 0) ! c \<noteq> int 3"
      by (auto simp: FMT_INFO_sel)
  qed
  have j: "(3 :: nat) < 4"
    by simp
  show ?thesis
    using to_intermediate_keeps_defaults [OF info_RGB8_UNORM j a, of oor_zero "[]"
        "zero_memory(0 := 0xAA, 1 := 0xBB, 2 := 0xCC)" 0]
      info_RGB8_UNORM double_val_one
    by (simp add: FMT_INFO_sel)
qed

subsection \<open>The scalar of a packed format\<close>











subsection \<open>\<^verbatim>\<open>GL_DEPTH_STENCIL\<close> with \<^verbatim>\<open>GL_UNSIGNED_INT_24_8\<close>\<close>







end
